theory Spec2Isabelle
  imports Complex_Main
begin

section \<open>JavaScript strings\<close>

text \<open>
  A JavaScript string is modelled as a \<^typ>\<open>string\<close>, the list of its code units.
  \<open>s.startsWith(p)\<close> and \<open>s.endsWith(p)\<close> compare the first, respectively the last,
  \<open>p.length\<close> units of \<open>s\<close> with \<open>p\<close>.
\<close>

definition startsWith :: "string \<Rightarrow> string \<Rightarrow> bool" where
  "startsWith s p = (take (length p) s = p)"

definition endsWith :: "string \<Rightarrow> string \<Rightarrow> bool" where
  "endsWith s p = (length p \<le> length s \<and> drop (length s - length p) s = p)"

section \<open>The content preview: \<open>PreviewElement.tsx\<close>\<close>

subsection \<open>The classifier \<open>PreviewContent\<close>\<close>

record PreviewContentProps =
  contentType :: string
  name :: string
  src :: string

text \<open>
  The element \<open>PreviewContent\<close> returns. The host elements carry the attributes the
  source gives them (\<open>src\<close>, then \<open>alt\<close> and \<open>title\<close>, or \<open>title\<close> alone); the three viewer
  components carry their props \<open>src\<close> and \<open>name\<close>.
\<close>

datatype preview =
    Img string string string
  | Video string string
  | Audio string string
  | CsvViewer string string
  | TextViewer string string
  | JsonViewer string string
  | FullSizeIframe string string

definition PreviewContent :: "PreviewContentProps \<Rightarrow> preview" where
  "PreviewContent p =
     (if startsWith (contentType p) ''image/'' then Img (src p) (name p) (name p)
      else if startsWith (contentType p) ''video/'' then Video (src p) (name p)
      else if startsWith (contentType p) ''audio/'' then Audio (src p) (name p)
      else if startsWith (contentType p) ''text/csv'' then CsvViewer (src p) (name p)
      else if startsWith (contentType p) ''text/'' then TextViewer (src p) (name p)
      else if startsWith (contentType p) ''application/json'' then JsonViewer (src p) (name p)
      else FullSizeIframe (src p) (name p))"

subsection \<open>JSON values\<close>

text \<open>
  A value produced by \<open>JSON.parse\<close>. A number is a finite double, hence a rational (the
  sign of zero is not kept). An object is the list of its entries in the order
  \<open>Object.entries\<close> enumerates them.
\<close>

datatype json =
    JNull
  | JBool bool
  | JNum rat
  | JStr string
  | JArr "json list"
  | JObj "(string \<times> json) list"

definition digit :: "nat \<Rightarrow> char" where
  "digit d = ''0123456789'' ! d"

text \<open>The decimal digits of a natural number: \<open>String(n)\<close> for an index or a status code.\<close>

fun nat_to_string :: "nat \<Rightarrow> string" where
  "nat_to_string n =
     (if n < 10 then [digit n] else nat_to_string (n div 10) @ [digit (n mod 10)])"

declare nat_to_string.simps [simp del]

text \<open>\<open>Array.isArray(v) || (typeof v === 'object' && v !== null)\<close>\<close>

fun isComposite :: "json \<Rightarrow> bool" where
  "isComposite (JArr xs) = True"
| "isComposite (JObj kvs) = True"
| "isComposite v = False"

text \<open>
  \<open>Object.entries\<close> of an array pairs each element with its index as a string. The source
  applies it to arrays and objects only.
\<close>

fun entries :: "json \<Rightarrow> (string \<times> json) list" where
  "entries (JArr xs) = zip (map nat_to_string [0..<length xs]) xs"
| "entries (JObj kvs) = kvs"
| "entries v = []"

text \<open>
  \<open>Object.keys\<close>, as \<open>JsonViewer\<close> applies it to the parsed document: \<open>null\<close> raises a
  TypeError (\<open>None\<close>), a boolean or a number has no keys, a string has its indices.
\<close>

fun Object_keys :: "json \<Rightarrow> string list option" where
  "Object_keys JNull = None"
| "Object_keys (JBool b) = Some []"
| "Object_keys (JNum n) = Some []"
| "Object_keys (JStr s) = Some (map nat_to_string [0..<length s])"
| "Object_keys v = Some (map fst (entries v))"

subsection \<open>\<open>convertToTree\<close>\<close>

text \<open>
  The label of a tree item is \<open><code><ColoredKey>{key}:</ColoredKey></code>\<close>, followed for an
  atomic value by \<open><JsonValue value={value} />\<close>. \<open>JsonValue\<close> renders the text
  \<open>JSON.stringify(value)\<close> inside a \<open>ColoredValue\<close>; \<open>JSON.stringify\<close> is a parameter.
\<close>

datatype label = KeyOnly string | KeyValue string json

datatype ColoredValue = ColoredValue json string

definition JsonValue_render :: "(json \<Rightarrow> string) \<Rightarrow> json \<Rightarrow> ColoredValue" where
  "JsonValue_render stringify v = ColoredValue v (stringify v)"

text \<open>What a label shows: the text of its \<open>ColoredKey\<close> and, for a leaf, the rendered value.\<close>

fun label_render :: "(json \<Rightarrow> string) \<Rightarrow> label \<Rightarrow> string \<times> ColoredValue option" where
  "label_render stringify (KeyOnly key) = (key @ '':'', None)"
| "label_render stringify (KeyValue key v) = (key @ '':'', Some (JsonValue_render stringify v))"

text \<open>
  The React nodes \<open>convertToTree\<close> builds: a \<open>TreeItem\<close> with its \<open>nodeId\<close>, \<open>label\<close> and
  optional \<open>children\<close>, or a bare \<open>JsonValue\<close>; a \<open>ReactNode\<close> is an array of elements or one
  element. React's \<open>key\<close> attribute is a reconciliation hint and no prop of the element; it
  is not modelled (for a \<open>TreeItem\<close> it equals \<open>nodeId\<close>).
\<close>

datatype node =
    TreeItem string label "ReactNode option"
  | JsonValue json
and ReactNode =
    Elements "node list"
  | Element node

text \<open>The template literal \<open>`${keyPrefix}['${key}']`\<close>.\<close>

definition template_nodeId :: "string \<Rightarrow> string \<Rightarrow> string" where
  "template_nodeId keyPrefix key = keyPrefix @ ''['' @ [CHR 0x27] @ key @ [CHR 0x27] @ '']''"

lemma entries_size: "(k, v) \<in> set (entries obj) \<Longrightarrow> size v < size obj"
proof (cases obj)
  case (JArr xs)
  assume "(k, v) \<in> set (entries obj)"
  with JArr have "v \<in> set xs" by (auto dest: set_zip_rightD)
  then have "size v \<le> size_list size xs" by (simp add: size_list_estimation')
  with JArr show ?thesis by simp
next
  case (JObj kvs)
  assume "(k, v) \<in> set (entries obj)"
  with JObj have "(k, v) \<in> set kvs" by simp
  then have "size_prod (\<lambda>_. 0) size (k, v) \<le> size_list (size_prod (\<lambda>_. 0) size) kvs"
    by (simp add: size_list_estimation')
  with JObj show ?thesis by simp
qed auto

function (domintros) convertToTree :: "json \<Rightarrow> string \<Rightarrow> ReactNode" where
  "convertToTree obj keyPrefix =
     (if isComposite obj then
        Elements (map (\<lambda>(key, value).
          if isComposite value then
            (let nodeId = template_nodeId keyPrefix key in
               TreeItem nodeId (KeyOnly key) (Some (convertToTree value nodeId)))
          else
            (let nodeId = template_nodeId keyPrefix key in
               TreeItem nodeId (KeyValue key value) None))
          (entries obj))
      else Element (JsonValue obj))"
  by pat_completeness auto

lemma convertToTree_dom_all: "convertToTree_dom (obj, keyPrefix)"
proof (induction obj arbitrary: keyPrefix rule: measure_induct_rule [where f = size])
  case (less obj)
  show ?case
    by (rule convertToTree.domintros) (auto dest: entries_size intro: less)
qed

termination convertToTree
  using convertToTree_dom_all by auto

declare convertToTree.simps [simp del]

text \<open>
  The node ids of a tree in document order, and the access paths of a JSON value: the
  key sequences that lead from the root to an entry.
\<close>

fun ids_node :: "node \<Rightarrow> string list"
  and ids :: "ReactNode \<Rightarrow> string list" where
  "ids_node (TreeItem nodeId l None) = [nodeId]"
| "ids_node (TreeItem nodeId l (Some c)) = nodeId # ids c"
| "ids_node (JsonValue v) = []"
| "ids (Elements ns) = concat (map ids_node ns)"
| "ids (Element n) = ids_node n"

function paths :: "json \<Rightarrow> string list list" where
  "paths obj = concat (map (\<lambda>(key, value). [key] # map ((#) key) (paths value)) (entries obj))"
  by pat_completeness auto
termination
  by (relation "measure size") (auto dest: entries_size)

declare paths.simps [simp del]

text \<open>The id that encodes an access path: one \<open>['key']\<close> per step.\<close>

fun path_id :: "string list \<Rightarrow> string" where
  "path_id [] = []"
| "path_id (key # ks) = template_nodeId [] key @ path_id ks"

subsection \<open>The viewer components and their effects\<close>

text \<open>
  The three viewers keep their display data in a state that an effect fills after the
  first render. The collaborators of the effects are parameters: \<open>fetch\<close> gives the body text
  of the response for a URL (\<open>None\<close> when the promise rejects), \<open>parseCsv\<close> is the parser of
  \<open>csv-parse\<close> with \<open>columns: true\<close> (each row an object from column name to cell; \<open>None\<close>
  when it reports an error and passes no output), \<open>parseJson\<close> is \<open>response.json()\<close>.
\<close>

type_synonym csv_row = "(string \<times> string) list"

record GridColDef =
  field :: string
  headerName :: string
  flex :: nat
  minWidth :: nat

record DataGridProps =
  getRowId :: "csv_row \<Rightarrow> string"
  rows :: "csv_row list"
  columns :: "GridColDef list"

record TreeViewProps =
  defaultExpanded :: "string list"
  children :: ReactNode

text \<open>What a call of the effect asks of the outside: a dynamic import or a fetch of a URL.\<close>

datatype call = Import string | Fetch string

text \<open>\<open>row => JSON.stringify(row)\<close> on a row object of strings.\<close>

definition row_id :: "(json \<Rightarrow> string) \<Rightarrow> csv_row \<Rightarrow> string" where
  "row_id stringify row = stringify (JObj (map (\<lambda>(k, v). (k, JStr v)) row))"

text \<open>
  The state \<open>CsvViewer\<close> reaches once its promises have settled. \<open>Object.keys(output[0])\<close>
  raises a TypeError when there is no output or no first row; the state then stays
  \<open>undefined\<close>, as it does when the fetch fails.
\<close>

definition CsvViewer_effect ::
  "(string \<Rightarrow> string option) \<Rightarrow> (string \<Rightarrow> csv_row list option) \<Rightarrow> (json \<Rightarrow> string) \<Rightarrow>
   string \<Rightarrow> DataGridProps option" where
  "CsvViewer_effect fetch parseCsv stringify url =
     (case fetch url of
        None \<Rightarrow> None
      | Some data \<Rightarrow>
          (case parseCsv data of
             None \<Rightarrow> None
           | Some [] \<Rightarrow> None
           | Some (r # rs) \<Rightarrow>
               Some \<lparr>getRowId = row_id stringify,
                     rows = r # rs,
                     columns = map (\<lambda>f. \<lparr>field = f, headerName = f, flex = 1, minWidth = 200\<rparr>)
                                 (map fst r)\<rparr>))"

text \<open>The state of \<open>TextViewer\<close>: the empty string at first, the body once it is fetched.\<close>

definition TextViewer_effect :: "(string \<Rightarrow> string option) \<Rightarrow> string \<Rightarrow> string" where
  "TextViewer_effect fetch url = (case fetch url of None \<Rightarrow> [] | Some data \<Rightarrow> data)"

text \<open>
  The state of \<open>JsonViewer\<close>: \<open>convertToTree(data)\<close> with the default prefix \<open>''\<close> as children
  and \<open>Object.keys(data)\<close> as the prop \<open>defaultExpanded\<close>.
\<close>

definition JsonViewer_effect ::
  "(string \<Rightarrow> string option) \<Rightarrow> (string \<Rightarrow> json option) \<Rightarrow> string \<Rightarrow> TreeViewProps option" where
  "JsonViewer_effect fetch parseJson url =
     (case fetch url of
        None \<Rightarrow> None
      | Some body \<Rightarrow>
          (case parseJson body of
             None \<Rightarrow> None
           | Some data \<Rightarrow>
               (let children = convertToTree data [] in
                  case Object_keys data of
                    None \<Rightarrow> None
                  | Some ks \<Rightarrow> Some \<lparr>defaultExpanded = ks, children = children\<rparr>)))"

text \<open>\<open>name.split('.').pop()\<close>: what follows the last dot, or the whole name.\<close>

definition language :: "string \<Rightarrow> string" where
  "language nm = rev (takeWhile (\<lambda>c. c \<noteq> CHR ''.'') (rev nm))"

text \<open>
  What is on the screen: a host element as \<open>PreviewContent\<close> returned it, nothing (a
  component that returned \<open>undefined\<close>), or the widget of a viewer with its \<open>aria-label\<close> and
  data; the highlighter has its \<open>language\<close> before its content (its theme and
  \<open>showLineNumbers\<close> are the same in every render).
\<close>

datatype display =
    Host preview
  | Nothing
  | DataGrid string DataGridProps
  | FullScreenSyntaxHighlighter string string string
  | JsonTreeView string TreeViewProps

definition CsvViewer_render :: "string \<Rightarrow> DataGridProps option \<Rightarrow> display" where
  "CsvViewer_render nm dataGridProps =
     (case dataGridProps of None \<Rightarrow> Nothing | Some props \<Rightarrow> DataGrid nm props)"

definition TextViewer_render :: "string \<Rightarrow> string \<Rightarrow> display" where
  "TextViewer_render nm content = FullScreenSyntaxHighlighter nm (language nm) content"

definition JsonViewer_render :: "string \<Rightarrow> TreeViewProps option \<Rightarrow> display" where
  "JsonViewer_render nm treeViewProps =
     (case treeViewProps of None \<Rightarrow> Nothing | Some props \<Rightarrow> JsonTreeView nm props)"

text \<open>
  The life of the element \<open>PreviewContent\<close> returns. \<open>effect_calls\<close> lists what the code of
  its component requests when it mounts: \<open>CsvViewer\<close> imports the parser and fetches \<open>src\<close>,
  \<open>TextViewer\<close> and \<open>JsonViewer\<close> fetch \<open>src\<close>; \<open>img\<close>, \<open>video\<close>, \<open>audio\<close> and \<open>iframe\<close> are host
  elements with a \<open>src\<close> attribute and no code of this program runs for them.
  \<open>first_render\<close> is the display with the initial state, \<open>settled\<close> the display once the
  promises of the effect have settled.
\<close>

fun effect_calls :: "preview \<Rightarrow> call list" where
  "effect_calls (CsvViewer url nm) = [Import ''csv-parse/browser/esm'', Fetch url]"
| "effect_calls (TextViewer url nm) = [Fetch url]"
| "effect_calls (JsonViewer url nm) = [Fetch url]"
| "effect_calls e = []"

fun first_render :: "preview \<Rightarrow> display" where
  "first_render (CsvViewer url nm) = CsvViewer_render nm None"
| "first_render (TextViewer url nm) = TextViewer_render nm []"
| "first_render (JsonViewer url nm) = JsonViewer_render nm None"
| "first_render e = Host e"

fun settled ::
  "(string \<Rightarrow> string option) \<Rightarrow> (string \<Rightarrow> csv_row list option) \<Rightarrow> (string \<Rightarrow> json option) \<Rightarrow>
   (json \<Rightarrow> string) \<Rightarrow> preview \<Rightarrow> display" where
  "settled fetch parseCsv parseJson stringify (CsvViewer url nm) =
     CsvViewer_render nm (CsvViewer_effect fetch parseCsv stringify url)"
| "settled fetch parseCsv parseJson stringify (TextViewer url nm) =
     TextViewer_render nm (TextViewer_effect fetch url)"
| "settled fetch parseCsv parseJson stringify (JsonViewer url nm) =
     JsonViewer_render nm (JsonViewer_effect fetch parseJson url)"
| "settled fetch parseCsv parseJson stringify e = Host e"

section \<open>The bucket listing: \<open>s3.buckets.$id.($key)/route.tsx\<close>\<close>

subsection \<open>String methods the loader uses\<close>

text \<open>\<open>s.lastIndexOf(c)\<close>: the index of the last \<open>c\<close> in \<open>s\<close>, or \<open>-1\<close>.\<close>

definition lastIndexOf :: "string \<Rightarrow> char \<Rightarrow> int" where
  "lastIndexOf s c =
     (if c \<in> set s then int (length s) - 1 - int (length (takeWhile (\<lambda>x. x \<noteq> c) (rev s)))
      else - 1)"

text \<open>\<open>s.slice(b, e)\<close>: a negative index counts from the end, and both are clamped.\<close>

definition slice :: "string \<Rightarrow> int \<Rightarrow> int \<Rightarrow> string" where
  "slice s b e =
     (let n = int (length s);
          from = (if b < 0 then max (n + b) 0 else min b n);
          to = (if e < 0 then max (n + e) 0 else min e n)
      in take (nat (to - from)) (drop (nat from) s))"

text \<open>
  \<open>s.replace(pat, rep)\<close> with a string pattern: the first occurrence of \<open>pat\<close> is replaced.
  The replacement is taken literally (the source passes \<open>''\<close>).
\<close>

fun js_replace :: "string \<Rightarrow> string \<Rightarrow> string \<Rightarrow> string" where
  "js_replace [] pat rep = (if pat = [] then rep else [])"
| "js_replace (c # cs) pat rep =
     (if startsWith (c # cs) pat then rep @ drop (length pat) (c # cs)
      else c # js_replace cs pat rep)"

text \<open>The truth value of \<open>k?.endsWith('/')\<close> for an optional string.\<close>

definition optEndsWithSlash :: "string option \<Rightarrow> bool" where
  "optEndsWithSlash k = (case k of None \<Rightarrow> False | Some s \<Rightarrow> endsWith s ''/'')"

subsection \<open>The SDK types and the loader\<close>

record CommonPrefix =
  Prefix :: "string option"

record S3Object =
  Key :: "string option"
  LastModified :: "string option"
  ETag :: "string option"
  Size :: "nat option"
  StorageClass :: "string option"

record ListObjectsV2Output =
  CommonPrefixes :: "CommonPrefix list option"
  Contents :: "S3Object list option"

text \<open>The command with its \<open>Bucket\<close>, \<open>Prefix\<close> and \<open>Delimiter\<close>.\<close>

datatype ListObjectsV2Command = ListObjectsV2Command string "string option" string

text \<open>
  An entry of the enriched response: the fields of the SDK entry (\<open>...obj\<close>, kept as \<open>item\<close>)
  and the three derived fields.
\<close>

record 'a enriched =
  item :: 'a
  BucketName :: string
  DirName :: "string option"
  BaseName :: "string option"

record LoaderData =
  directories :: "CommonPrefix enriched list"
  objects :: "S3Object enriched list"
  selectedObject :: "S3Object enriched option"

text \<open>The route parameters \<open>params.id\<close> and \<open>params.key\<close>.\<close>

record Params =
  params_id :: string
  params_key :: "string option"

text \<open>
  \<open>const key = params.key ? base64UrlDecode(params.key) : undefined\<close>; the decoder is in
  \<open>~/src/utils\<close> and is a parameter.
\<close>

definition loader_key :: "(string \<Rightarrow> string) \<Rightarrow> Params \<Rightarrow> string option" where
  "loader_key base64UrlDecode params =
     (case params_key params of
        None \<Rightarrow> None
      | Some k \<Rightarrow> if k = [] then None else Some (base64UrlDecode k))"

text \<open>\<open>const prefix = key?.slice(0, key?.lastIndexOf('/') + 1)\<close>\<close>

definition loader_prefix :: "string option \<Rightarrow> string option" where
  "loader_prefix key =
     (case key of None \<Rightarrow> None | Some k \<Rightarrow> Some (slice k 0 (lastIndexOf k (CHR ''/'') + 1)))"

text \<open>
  The loader. \<open>send\<close> is \<open>s3Client.send\<close>: the response to the command, or the error its
  promise rejects with, which the loader passes on.
\<close>

definition loader ::
  "(string \<Rightarrow> string) \<Rightarrow> (ListObjectsV2Command \<Rightarrow> 'e + ListObjectsV2Output) \<Rightarrow> Params \<Rightarrow>
   'e + LoaderData" where
  "loader base64UrlDecode send params =
     (let key = loader_key base64UrlDecode params;
          prefix = loader_prefix key
      in case send (ListObjectsV2Command (params_id params) prefix ''/'') of
           Inl e \<Rightarrow> Inl e
         | Inr listObjectsResponse \<Rightarrow>
             (let folders =
                    (case CommonPrefixes listObjectsResponse of None \<Rightarrow> [] | Some cps \<Rightarrow> cps) @
                    (case Contents listObjectsResponse of
                       None \<Rightarrow> []
                     | Some cs \<Rightarrow>
                         map (\<lambda>obj. \<lparr>Prefix = Key obj\<rparr>)
                           (filter (\<lambda>obj. optEndsWithSlash (Key obj) \<and> Key obj \<noteq> prefix) cs));
                  objs =
                    (case Contents listObjectsResponse of
                       None \<Rightarrow> []
                     | Some cs \<Rightarrow> filter (\<lambda>obj. \<not> optEndsWithSlash (Key obj)) cs);
                  enrichedCommonPrefixes =
                    map (\<lambda>commonPrefix.
                           \<lparr>item = commonPrefix,
                            BucketName = params_id params,
                            DirName = prefix,
                            BaseName =
                              map_option
                                (\<lambda>p. js_replace p (case prefix of None \<Rightarrow> [] | Some x \<Rightarrow> x) [])
                                (Prefix commonPrefix)\<rparr>)
                      folders;
                  enrichedContents =
                    map (\<lambda>obj.
                           \<lparr>item = obj,
                            BucketName = params_id params,
                            DirName = prefix,
                            BaseName =
                              map_option
                                (\<lambda>k. js_replace k (case prefix of None \<Rightarrow> [] | Some x \<Rightarrow> x) [])
                                (Key obj)\<rparr>)
                      objs
              in Inr \<lparr>directories = enrichedCommonPrefixes,
                      objects = enrichedContents,
                      selectedObject =
                        (case key of
                           None \<Rightarrow> None
                         | Some k \<Rightarrow>
                             if k \<noteq> [] \<and> \<not> endsWith k ''/''
                             then find (\<lambda>obj. Key (item obj) = Some k) enrichedContents
                             else None)\<rparr>))"

text \<open>\<open>xs ?? []\<close> for an optional list of the response.\<close>

definition orEmpty :: "'a list option \<Rightarrow> 'a list" where
  "orEmpty xs = (case xs of None \<Rightarrow> [] | Some l \<Rightarrow> l)"

section \<open>The route error boundary of the root route\<close>

text \<open>
  What \<open>useRouteError\<close> returns: a route error response (\<open>isRouteErrorResponse\<close>) with its
  \<open>status\<close>, \<open>statusText\<close> and \<open>data\<close>, an instance of \<open>Error\<close> with its \<open>message\<close>, or any other
  thrown value.
\<close>

datatype thrown =
    RouteErrorResponse nat string "json option"
  | ErrorInstance string
  | OtherValue

text \<open>The truth value of \<open>error.data\<close>; \<open>None\<close> is \<open>undefined\<close>.\<close>

fun truthy :: "json option \<Rightarrow> bool" where
  "truthy None = False"
| "truthy (Some JNull) = False"
| "truthy (Some (JBool b)) = b"
| "truthy (Some (JNum n)) = (n \<noteq> 0)"
| "truthy (Some (JStr s)) = (s \<noteq> [])"
| "truthy (Some v) = True"

text \<open>\<open>new Error(x)\<close>, with the value it is built from.\<close>

datatype js_error = Error json

datatype html = H1 string | P string | Hr

text \<open>
  A rendered page: a \<open>Document\<close> with its title and the children of its \<open>Layout\<close>, or a bare
  element.
\<close>

datatype page = Document string "html list" | Bare html

definition ErrorBoundary :: "thrown \<Rightarrow> js_error + page" where
  "ErrorBoundary error =
     (case error of
        RouteErrorResponse status statusText data \<Rightarrow>
          (if status = 401 then
             Inr (Document (nat_to_string status @ '' '' @ statusText)
               [H1 (nat_to_string status @ '': '' @ statusText),
                P ''Oops! Looks like you tried to visit a page that you do not have access to.''])
           else if status = 404 then
             Inr (Document (nat_to_string status @ '' '' @ statusText)
               [H1 (nat_to_string status @ '': '' @ statusText),
                P ''Oops! Looks like you tried to visit a page that does not exist.''])
           else
             Inl (Error (case data of
                           Some v \<Rightarrow> if truthy data then v else JStr statusText
                         | None \<Rightarrow> JStr statusText)))
      | ErrorInstance message \<Rightarrow>
          Inr (Document ''Error!''
            [H1 ''There was an error'', P message, Hr,
             P ''Hey, developer, you should replace this with what you want your users to see.''])
      | OtherValue \<Rightarrow> Inr (Bare (H1 ''Unknown Error'')))"

section \<open>The create-queue action: \<open>sqs.queues._index/actions.ts\<close>\<close>

text \<open>
  Form data is the list of its entries; a value is a string or a file (with its name).
  \<open>has\<close> tells whether a name occurs, \<open>get\<close> returns the first value of a name.
\<close>

datatype FormDataEntryValue = FormString string | FormFile string

type_synonym FormData = "(string \<times> FormDataEntryValue) list"

definition formData_has :: "FormData \<Rightarrow> string \<Rightarrow> bool" where
  "formData_has formData n = (n \<in> set (map fst formData))"

definition formData_get :: "FormData \<Rightarrow> string \<Rightarrow> FormDataEntryValue option" where
  "formData_get formData n = map_of formData n"

fun entry_toString :: "FormDataEntryValue \<Rightarrow> string" where
  "entry_toString (FormString s) = s"
| "entry_toString (FormFile f) = ''[object File]''"

definition bool_toString :: "bool \<Rightarrow> string" where
  "bool_toString b = (if b then ''true'' else ''false'')"

text \<open>A value inside a template literal: \<open>undefined\<close> prints as \<open>undefined\<close>.\<close>

definition template_opt :: "string option \<Rightarrow> string" where
  "template_opt v = (case v of None \<Rightarrow> ''undefined'' | Some s \<Rightarrow> s)"

record Attributes =
  FifoQueue :: string
  ContentBasedDeduplication :: string

record CreateQueueCommand =
  QueueName :: string
  Attributes :: Attributes

datatype response = Redirect string

text \<open>
  The action returns the commands it sent and its outcome. \<open>send\<close> is \<open>sqsClient.send\<close>: \<open>None\<close>
  when the promise resolves, the error when it rejects; the awaited rejection leaves the
  action before the redirect.
\<close>

definition createQueueAction ::
  "(CreateQueueCommand \<Rightarrow> 'e option) \<Rightarrow> FormData \<Rightarrow> CreateQueueCommand list \<times> ('e + response)" where
  "createQueueAction send formData =
     (let isFifo = formData_has formData ''fifo'';
          command =
            \<lparr>QueueName =
               template_opt (map_option entry_toString (formData_get formData ''name'')) @
               (if isFifo then ''.fifo'' else []),
             Attributes =
               \<lparr>FifoQueue = bool_toString isFifo,
                ContentBasedDeduplication =
                  bool_toString (formData_has formData ''contentBasedDeduplication'')\<rparr>\<rparr>
      in ([command],
          case send command of
            Some e \<Rightarrow> Inl e
          | None \<Rightarrow> Inr (Redirect ''/sqs/queues'')))"

section \<open>The console home: the loader of the index route\<close>

text \<open>
  The loader returns the data \<open>{ services }\<close> or a redirect response. \<open>getEnabledServices\<close> is
  in \<open>~/src/aws/server\<close>; the list it returns is the argument. \<open>services[0]\<close> of an empty
  array is \<open>undefined\<close>.
\<close>

datatype index_data = Services "string list" | Response response

definition index_loader :: "string list \<Rightarrow> index_data" where
  "index_loader services =
     (if length services > 1 then Services services
      else Response (Redirect (''/'' @
             template_opt (case services of [] \<Rightarrow> None | s # rest \<Rightarrow> Some s))))"

section \<open>Properties of the classifier\<close>

lemma startsWith_Nil: "startsWith s []"
  by (simp add: startsWith_def)

lemma startsWith_Cons:
  "startsWith s (a # q) = (case s of [] \<Rightarrow> False | b # t \<Rightarrow> a = b \<and> startsWith t q)"
  by (cases s) (auto simp: startsWith_def)

lemma startsWith_head_diff:
  "startsWith s (a # q) \<Longrightarrow> a \<noteq> b \<Longrightarrow> \<not> startsWith s (b # r)"
  by (cases s) (auto simp: startsWith_Cons)

lemma startsWith_text_csv: "startsWith s ''text/csv'' \<Longrightarrow> startsWith s ''text/''"
  by (auto simp: startsWith_Cons startsWith_Nil split: list.splits)

lemma audio_not_json: "startsWith s ''audio/'' \<Longrightarrow> \<not> startsWith s ''application/json''"
  by (auto simp: startsWith_Cons split: list.splits)

lemma not_image:
  "startsWith s ''video/'' \<or> startsWith s ''audio/'' \<or> startsWith s ''text/'' \<or>
   startsWith s ''application/json'' \<Longrightarrow> \<not> startsWith s ''image/''"
  by (auto dest: startsWith_head_diff [where b = "CHR ''i''" and r = "''mage/''"])

lemma not_video:
  "startsWith s ''audio/'' \<or> startsWith s ''text/'' \<or> startsWith s ''application/json''
   \<Longrightarrow> \<not> startsWith s ''video/''"
  by (auto dest: startsWith_head_diff [where b = "CHR ''v''" and r = "''ideo/''"])

lemma not_text:
  "startsWith s ''application/json'' \<Longrightarrow> \<not> startsWith s ''text/''"
  by (auto dest: startsWith_head_diff [where b = "CHR ''t''" and r = "''ext/''"])

lemma PreviewContent_image:
  "startsWith (contentType p) ''image/'' \<Longrightarrow> PreviewContent p = Img (src p) (name p) (name p)"
  by (simp add: PreviewContent_def)

lemma PreviewContent_video:
  "startsWith (contentType p) ''video/'' \<Longrightarrow> PreviewContent p = Video (src p) (name p)"
  using not_image [of "contentType p"] by (simp add: PreviewContent_def)

lemma PreviewContent_audio:
  "startsWith (contentType p) ''audio/'' \<Longrightarrow> PreviewContent p = Audio (src p) (name p)"
  using not_image [of "contentType p"] not_video [of "contentType p"]
  by (simp add: PreviewContent_def)

lemma PreviewContent_csv:
  "startsWith (contentType p) ''text/csv'' \<Longrightarrow> PreviewContent p = CsvViewer (src p) (name p)"
  using not_image [of "contentType p"] not_video [of "contentType p"]
    startsWith_text_csv [of "contentType p"]
    startsWith_head_diff [of "contentType p" "CHR ''t''" "''ext/''" "CHR ''a''" "''udio/''"]
  by (simp add: PreviewContent_def)

lemma PreviewContent_text:
  "startsWith (contentType p) ''text/'' \<Longrightarrow> \<not> startsWith (contentType p) ''text/csv'' \<Longrightarrow>
   PreviewContent p = TextViewer (src p) (name p)"
  using not_image [of "contentType p"] not_video [of "contentType p"]
    startsWith_head_diff [of "contentType p" "CHR ''t''" "''ext/''" "CHR ''a''" "''udio/''"]
  by (simp add: PreviewContent_def)

lemma PreviewContent_json:
  "startsWith (contentType p) ''application/json'' \<Longrightarrow>
   PreviewContent p = JsonViewer (src p) (name p)"
  using not_image [of "contentType p"] not_video [of "contentType p"]
    not_text [of "contentType p"] audio_not_json [of "contentType p"]
    startsWith_text_csv [of "contentType p"]
  by (auto simp: PreviewContent_def)

lemma PreviewContent_frame:
  "\<not> startsWith (contentType p) ''image/'' \<Longrightarrow> \<not> startsWith (contentType p) ''video/'' \<Longrightarrow>
   \<not> startsWith (contentType p) ''audio/'' \<Longrightarrow> \<not> startsWith (contentType p) ''text/'' \<Longrightarrow>
   \<not> startsWith (contentType p) ''application/json'' \<Longrightarrow>
   PreviewContent p = FullSizeIframe (src p) (name p)"
  using startsWith_text_csv [of "contentType p"] by (auto simp: PreviewContent_def)

lemma PreviewContent_total:
  "PreviewContent p \<in>
     {Img (src p) (name p) (name p), Video (src p) (name p), Audio (src p) (name p),
      CsvViewer (src p) (name p), TextViewer (src p) (name p), JsonViewer (src p) (name p),
      FullSizeIframe (src p) (name p)}"
  by (simp add: PreviewContent_def)

text \<open>
  Claim C1. For every MIME-type string the classifier returns exactly one of seven
  renderer variants, tried in this order: the image embed for a type starting with
  \<open>image/\<close>, the video embed for \<open>video/\<close>, the audio embed for \<open>audio/\<close>, the CSV viewer
  for \<open>text/csv\<close>, the text viewer for (any other type starting with) \<open>text/\<close>, the JSON
  viewer for \<open>application/json\<close>, and the embedded frame for every other string. The
  function is total: its value is always one of the seven.
\<close>

theorem PreviewContent_variants:
  "(startsWith (contentType p) ''image/'' \<longrightarrow>
      PreviewContent p = Img (src p) (name p) (name p)) \<and>
   (startsWith (contentType p) ''video/'' \<longrightarrow>
      PreviewContent p = Video (src p) (name p)) \<and>
   (startsWith (contentType p) ''audio/'' \<longrightarrow>
      PreviewContent p = Audio (src p) (name p)) \<and>
   (startsWith (contentType p) ''text/csv'' \<longrightarrow>
      PreviewContent p = CsvViewer (src p) (name p)) \<and>
   (startsWith (contentType p) ''text/'' \<and> \<not> startsWith (contentType p) ''text/csv'' \<longrightarrow>
      PreviewContent p = TextViewer (src p) (name p)) \<and>
   (startsWith (contentType p) ''application/json'' \<longrightarrow>
      PreviewContent p = JsonViewer (src p) (name p)) \<and>
   (\<not> startsWith (contentType p) ''image/'' \<and> \<not> startsWith (contentType p) ''video/'' \<and>
    \<not> startsWith (contentType p) ''audio/'' \<and> \<not> startsWith (contentType p) ''text/'' \<and>
    \<not> startsWith (contentType p) ''application/json'' \<longrightarrow>
      PreviewContent p = FullSizeIframe (src p) (name p)) \<and>
   PreviewContent p \<in>
     {Img (src p) (name p) (name p), Video (src p) (name p), Audio (src p) (name p),
      CsvViewer (src p) (name p), TextViewer (src p) (name p), JsonViewer (src p) (name p),
      FullSizeIframe (src p) (name p)}"
  using PreviewContent_image [of p] PreviewContent_video [of p] PreviewContent_audio [of p]
    PreviewContent_csv [of p] PreviewContent_text [of p] PreviewContent_json [of p]
    PreviewContent_frame [of p] PreviewContent_total [of p]
  by blast

theorem PreviewContent_variants_witness:
  "PreviewContent \<lparr>contentType = ''image/png'', name = ''a.png'', src = ''/a''\<rparr>
     = Img ''/a'' ''a.png'' ''a.png'' \<and>
   PreviewContent \<lparr>contentType = ''video/mp4'', name = ''a.mp4'', src = ''/a''\<rparr>
     = Video ''/a'' ''a.mp4'' \<and>
   PreviewContent \<lparr>contentType = ''audio/ogg'', name = ''a.ogg'', src = ''/a''\<rparr>
     = Audio ''/a'' ''a.ogg'' \<and>
   PreviewContent \<lparr>contentType = ''text/csv'', name = ''a.csv'', src = ''/a''\<rparr>
     = CsvViewer ''/a'' ''a.csv'' \<and>
   PreviewContent \<lparr>contentType = ''text/plain'', name = ''a.txt'', src = ''/a''\<rparr>
     = TextViewer ''/a'' ''a.txt'' \<and>
   PreviewContent \<lparr>contentType = ''application/json'', name = ''a.json'', src = ''/a''\<rparr>
     = JsonViewer ''/a'' ''a.json'' \<and>
   PreviewContent \<lparr>contentType = ''application/pdf'', name = ''a.pdf'', src = ''/a''\<rparr>
     = FullSizeIframe ''/a'' ''a.pdf''"
  using
    PreviewContent_variants [of "\<lparr>contentType = ''image/png'', name = ''a.png'', src = ''/a''\<rparr>"]
    PreviewContent_variants [of "\<lparr>contentType = ''video/mp4'', name = ''a.mp4'', src = ''/a''\<rparr>"]
    PreviewContent_variants [of "\<lparr>contentType = ''audio/ogg'', name = ''a.ogg'', src = ''/a''\<rparr>"]
    PreviewContent_variants [of "\<lparr>contentType = ''text/csv'', name = ''a.csv'', src = ''/a''\<rparr>"]
    PreviewContent_variants [of "\<lparr>contentType = ''text/plain'', name = ''a.txt'', src = ''/a''\<rparr>"]
    PreviewContent_variants [of "\<lparr>contentType = ''application/json'', name = ''a.json'', src = ''/a''\<rparr>"]
    PreviewContent_variants [of "\<lparr>contentType = ''application/pdf'', name = ''a.pdf'', src = ''/a''\<rparr>"]
  by (simp add: startsWith_def)

text \<open>
  Claim C2. The test for \<open>text/csv\<close> comes before the test for \<open>text/\<close>: every content type
  starting with \<open>text/csv\<close> gets the CSV viewer and not the text viewer, and every other
  content type starting with \<open>text/\<close> gets the text viewer.
\<close>

theorem PreviewContent_csv_before_text:
  "(startsWith (contentType p) ''text/csv'' \<longrightarrow>
      PreviewContent p = CsvViewer (src p) (name p) \<and>
      PreviewContent p \<noteq> TextViewer (src p) (name p)) \<and>
   (startsWith (contentType p) ''text/'' \<and> \<not> startsWith (contentType p) ''text/csv'' \<longrightarrow>
      PreviewContent p = TextViewer (src p) (name p))"
  using PreviewContent_csv [of p] PreviewContent_text [of p] by auto

theorem PreviewContent_csv_before_text_witness:
  "startsWith ''text/csv; charset=utf-8'' ''text/csv'' \<and>
   startsWith ''text/csv; charset=utf-8'' ''text/'' \<and>
   PreviewContent \<lparr>contentType = ''text/csv; charset=utf-8'', name = ''t.csv'', src = ''/t''\<rparr>
     = CsvViewer ''/t'' ''t.csv'' \<and>
   startsWith ''text/html'' ''text/'' \<and> \<not> startsWith ''text/html'' ''text/csv'' \<and>
   PreviewContent \<lparr>contentType = ''text/html'', name = ''t.html'', src = ''/t''\<rparr>
     = TextViewer ''/t'' ''t.html''"
  using
    PreviewContent_csv_before_text
      [of "\<lparr>contentType = ''text/csv; charset=utf-8'', name = ''t.csv'', src = ''/t''\<rparr>"]
    PreviewContent_csv_before_text
      [of "\<lparr>contentType = ''text/html'', name = ''t.html'', src = ''/t''\<rparr>"]
  by (simp add: startsWith_def)

section \<open>Properties of \<open>convertToTree\<close>\<close>

lemma template_nodeId_append: "template_nodeId keyPrefix key = keyPrefix @ template_nodeId [] key"
  by (simp only: template_nodeId_def append_Nil)

lemma paths_atom: "\<not> isComposite v \<Longrightarrow> paths v = []"
  by (subst paths.simps, cases v) simp_all

lemma convertToTree_composite:
  "isComposite obj \<Longrightarrow> convertToTree obj keyPrefix =
     Elements (map (\<lambda>(key, value).
        if isComposite value then
          TreeItem (template_nodeId keyPrefix key) (KeyOnly key)
            (Some (convertToTree value (template_nodeId keyPrefix key)))
        else TreeItem (template_nodeId keyPrefix key) (KeyValue key value) None)
      (entries obj))"
  by (subst convertToTree.simps) (auto simp: Let_def)

lemma convertToTree_atom:
  "\<not> isComposite obj \<Longrightarrow> convertToTree obj keyPrefix = Element (JsonValue obj)"
  by (subst convertToTree.simps) simp

lemma ids_convertToTree:
  "ids (convertToTree obj keyPrefix) = map (\<lambda>p. keyPrefix @ path_id p) (paths obj)"
proof (induction obj keyPrefix rule: convertToTree.induct)
  case (1 obj keyPrefix)
  show ?case
  proof (cases "isComposite obj")
    case False
    then show ?thesis by (simp add: convertToTree_atom paths_atom)
  next
    case True
    have step: "ids_node (if isComposite v then
          TreeItem (template_nodeId keyPrefix k) (KeyOnly k)
            (Some (convertToTree v (template_nodeId keyPrefix k)))
        else TreeItem (template_nodeId keyPrefix k) (KeyValue k v) None)
      = map (\<lambda>p. keyPrefix @ path_id p) ([k] # map ((#) k) (paths v))"
      if kv: "(k, v) \<in> set (entries obj)" for k v
    proof (cases "isComposite v")
      case False
      then show ?thesis by (simp add: paths_atom template_nodeId_append [of keyPrefix k])
    next
      case comp: True
      have "ids (convertToTree v (template_nodeId keyPrefix k)) =
          map (\<lambda>p. template_nodeId keyPrefix k @ path_id p) (paths v)"
        using "1.IH" [OF True kv refl comp refl] .
      with comp show ?thesis
        by (simp add: template_nodeId_append [of keyPrefix k] comp_def)
    qed
    have "ids (convertToTree obj keyPrefix) =
        concat (map (\<lambda>(k, v). map (\<lambda>p. keyPrefix @ path_id p) ([k] # map ((#) k) (paths v)))
          (entries obj))"
      using step
      by (simp add: convertToTree_composite [OF True] comp_def case_prod_unfold
          cong: map_cong)
    also have "\<dots> = map (\<lambda>p. keyPrefix @ path_id p) (paths obj)"
      by (subst (2) paths.simps) (simp add: map_concat comp_def case_prod_unfold)
    finally show ?thesis .
  qed
qed

lemma convertToTree_items:
  "(isComposite obj \<longrightarrow>
      (\<exists>items. convertToTree obj keyPrefix = Elements items \<and>
         length items = length (entries obj) \<and>
         (\<forall>i < length items. \<forall>key value. entries obj ! i = (key, value) \<longrightarrow>
            (isComposite value \<longrightarrow>
               items ! i = TreeItem (template_nodeId keyPrefix key) (KeyOnly key)
                 (Some (convertToTree value (template_nodeId keyPrefix key)))) \<and>
            (\<not> isComposite value \<longrightarrow>
               items ! i = TreeItem (template_nodeId keyPrefix key) (KeyValue key value) None)))) \<and>
   (\<not> isComposite obj \<longrightarrow> convertToTree obj keyPrefix = Element (JsonValue obj)) \<and>
   JsonValue_render stringify obj = ColoredValue obj (stringify obj) \<and>
   label_render stringify (KeyValue k obj) = (k @ '':'', Some (ColoredValue obj (stringify obj))) \<and>
   ids (convertToTree obj keyPrefix) = map (\<lambda>p. keyPrefix @ path_id p) (paths obj)"
proof (intro conjI impI)
  assume comp: "isComposite obj"
  let ?f = "\<lambda>(key, value).
        if isComposite value then
          TreeItem (template_nodeId keyPrefix key) (KeyOnly key)
            (Some (convertToTree value (template_nodeId keyPrefix key)))
        else TreeItem (template_nodeId keyPrefix key) (KeyValue key value) None"
  have "convertToTree obj keyPrefix = Elements (map ?f (entries obj))"
    by (rule convertToTree_composite [OF comp])
  moreover have "length (map ?f (entries obj)) = length (entries obj)" by simp
  moreover have "\<forall>i < length (map ?f (entries obj)). \<forall>key value.
      entries obj ! i = (key, value) \<longrightarrow>
        (isComposite value \<longrightarrow>
           map ?f (entries obj) ! i = TreeItem (template_nodeId keyPrefix key) (KeyOnly key)
             (Some (convertToTree value (template_nodeId keyPrefix key)))) \<and>
        (\<not> isComposite value \<longrightarrow>
           map ?f (entries obj) ! i =
             TreeItem (template_nodeId keyPrefix key) (KeyValue key value) None)"
    by simp
  ultimately show "\<exists>items. convertToTree obj keyPrefix = Elements items \<and>
         length items = length (entries obj) \<and>
         (\<forall>i < length items. \<forall>key value. entries obj ! i = (key, value) \<longrightarrow>
            (isComposite value \<longrightarrow>
               items ! i = TreeItem (template_nodeId keyPrefix key) (KeyOnly key)
                 (Some (convertToTree value (template_nodeId keyPrefix key)))) \<and>
            (\<not> isComposite value \<longrightarrow>
               items ! i = TreeItem (template_nodeId keyPrefix key) (KeyValue key value) None))"
    by blast
next
  assume "\<not> isComposite obj"
  then show "convertToTree obj keyPrefix = Element (JsonValue obj)"
    by (rule convertToTree_atom)
next
  show "JsonValue_render stringify obj = ColoredValue obj (stringify obj)"
    by (simp add: JsonValue_render_def)
next
  show "label_render stringify (KeyValue k obj) =
      (k @ '':'', Some (ColoredValue obj (stringify obj)))"
    by (simp add: JsonValue_render_def)
next
  show "ids (convertToTree obj keyPrefix) = map (\<lambda>p. keyPrefix @ path_id p) (paths obj)"
    by (rule ids_convertToTree)
qed

lemma path_id_concat:
  "path_id p = concat (map (\<lambda>key. ''['' @ [CHR 0x27] @ key @ [CHR 0x27] @ '']'') p)"
  by (induction p) (simp_all add: template_nodeId_def)

lemma entries_JArr:
  "length (entries (JArr xs)) = length xs \<and> map snd (entries (JArr xs)) = xs \<and>
   (\<forall>i < length xs. fst (entries (JArr xs) ! i) = nat_to_string i)"
  by simp

text \<open>
  Claim C4. For every JSON value, \<open>convertToTree\<close> turns an object or array into one
  \<open>TreeItem\<close> per entry, in the order of the entries; the entries of an array are its
  elements under their decimal indices, those of an object its key-value pairs. The item of
  the entry \<open>key\<close> has as node id the characters of \<open>keyPrefix\<close> followed by \<open>[\<close>, a single
  quote, the key, a single quote and \<open>]\<close>; an entry whose value is an object or array has as
  children the tree of that value built under the item's own node id, and an entry with an
  atomic value is a leaf whose label shows the key and the \<open>JsonValue\<close> of the value. An
  atomic document becomes a bare \<open>JsonValue\<close>. \<open>JsonValue\<close> renders \<open>JSON.stringify\<close> of its
  value, so the label of a leaf shows the key and \<open>JSON.stringify\<close> of the value. Hence
  the node ids of the tree, in document order, are the prefix followed by one \<open>['key']\<close> for
  each step of an access path of the document.
\<close>

theorem convertToTree_structure:
  "(\<forall>xs. obj = JArr xs \<longrightarrow>
      length (entries obj) = length xs \<and> map snd (entries obj) = xs \<and>
      (\<forall>i < length xs. fst (entries obj ! i) = nat_to_string i)) \<and>
   (\<forall>kvs. obj = JObj kvs \<longrightarrow> entries obj = kvs) \<and>
   (isComposite obj \<longleftrightarrow> (\<exists>xs. obj = JArr xs) \<or> (\<exists>kvs. obj = JObj kvs)) \<and>
   (isComposite obj \<longrightarrow>
      (\<exists>items. convertToTree obj keyPrefix = Elements items \<and>
         length items = length (entries obj) \<and>
         (\<forall>i < length items. \<forall>key value. entries obj ! i = (key, value) \<longrightarrow>
            (isComposite value \<longrightarrow>
               items ! i =
                 TreeItem (keyPrefix @ ''['' @ [CHR 0x27] @ key @ [CHR 0x27] @ '']'') (KeyOnly key)
                   (Some (convertToTree value
                      (keyPrefix @ ''['' @ [CHR 0x27] @ key @ [CHR 0x27] @ '']'')))) \<and>
            (\<not> isComposite value \<longrightarrow>
               items ! i =
                 TreeItem (keyPrefix @ ''['' @ [CHR 0x27] @ key @ [CHR 0x27] @ '']'')
                   (KeyValue key value) None)))) \<and>
   (\<not> isComposite obj \<longrightarrow> convertToTree obj keyPrefix = Element (JsonValue obj)) \<and>
   JsonValue_render stringify obj = ColoredValue obj (stringify obj) \<and>
   label_render stringify (KeyValue k obj) = (k @ '':'', Some (ColoredValue obj (stringify obj))) \<and>
   ids (convertToTree obj keyPrefix) =
     map (\<lambda>p. keyPrefix @ concat (map (\<lambda>key. ''['' @ [CHR 0x27] @ key @ [CHR 0x27] @ '']'') p))
       (paths obj)"
proof -
  have arr: "\<forall>xs. obj = JArr xs \<longrightarrow>
      length (entries obj) = length xs \<and> map snd (entries obj) = xs \<and>
      (\<forall>i < length xs. fst (entries obj ! i) = nat_to_string i)"
    using entries_JArr by blast
  have ob: "\<forall>kvs. obj = JObj kvs \<longrightarrow> entries obj = kvs" by simp
  have comp: "isComposite obj \<longleftrightarrow> (\<exists>xs. obj = JArr xs) \<or> (\<exists>kvs. obj = JObj kvs)"
    by (cases obj) simp_all
  note tree = convertToTree_items [of obj keyPrefix stringify k,
      unfolded template_nodeId_def path_id_concat]
  from arr ob comp tree show ?thesis by (intro conjI) blast+
qed

lemma example_paths:
  "paths (JObj [(''a'', JNum 1), (''b'', JArr [JStr ''x'', JObj []])]) =
     [[''a''], [''b''], [''b'', ''0''], [''b'', ''1'']]"
  by (simp add: paths.simps [of "JObj _"] paths.simps [of "JArr _"] paths_atom
      nat_to_string.simps digit_def)

theorem convertToTree_structure_witness:
  "entries (JArr [JStr ''x'', JObj []]) = [(''0'', JStr ''x''), (''1'', JObj [])] \<and>
   isComposite (JObj [(''a'', JNum 1), (''b'', JArr [JStr ''x'', JObj []])]) \<and>
   convertToTree (JObj [(''a'', JNum 1), (''b'', JArr [JStr ''x'', JObj []])]) [] =
     Elements
       [TreeItem [CHR ''['', CHR 0x27, CHR ''a'', CHR 0x27, CHR '']'']
          (KeyValue ''a'' (JNum 1)) None,
        TreeItem [CHR ''['', CHR 0x27, CHR ''b'', CHR 0x27, CHR '']''] (KeyOnly ''b'')
          (Some (Elements
            [TreeItem
               [CHR ''['', CHR 0x27, CHR ''b'', CHR 0x27, CHR '']'',
                CHR ''['', CHR 0x27, CHR ''0'', CHR 0x27, CHR '']'']
               (KeyValue ''0'' (JStr ''x'')) None,
             TreeItem
               [CHR ''['', CHR 0x27, CHR ''b'', CHR 0x27, CHR '']'',
                CHR ''['', CHR 0x27, CHR ''1'', CHR 0x27, CHR '']'']
               (KeyOnly ''1'') (Some (Elements []))]))] \<and>
   \<not> isComposite (JNum 1) \<and>
   convertToTree (JNum 1) [] = Element (JsonValue (JNum 1)) \<and>
   JsonValue_render (\<lambda>v. ''1'') (JNum 1) = ColoredValue (JNum 1) ''1'' \<and>
   label_render (\<lambda>v. ''1'') (KeyValue ''a'' (JNum 1)) =
     (''a:'', Some (ColoredValue (JNum 1) ''1'')) \<and>
   ids (convertToTree (JObj [(''a'', JNum 1), (''b'', JArr [JStr ''x'', JObj []])]) []) =
     [[CHR ''['', CHR 0x27, CHR ''a'', CHR 0x27, CHR '']''],
      [CHR ''['', CHR 0x27, CHR ''b'', CHR 0x27, CHR '']''],
      [CHR ''['', CHR 0x27, CHR ''b'', CHR 0x27, CHR '']'',
       CHR ''['', CHR 0x27, CHR ''0'', CHR 0x27, CHR '']''],
      [CHR ''['', CHR 0x27, CHR ''b'', CHR 0x27, CHR '']'',
       CHR ''['', CHR 0x27, CHR ''1'', CHR 0x27, CHR '']'']] \<and>
   fst (entries (JArr (replicate 13 JNull)) ! 12) = ''12''"
  using
    convertToTree_structure
      [of "JObj [(''a'', JNum 1), (''b'', JArr [JStr ''x'', JObj []])]" "[]" "\<lambda>v. ''1''" "''a''"]
    convertToTree_structure [of "JNum 1" "[]" "\<lambda>v. ''1''" "''a''"]
    convertToTree_structure [of "JArr (replicate 13 JNull)" "[]" "\<lambda>v. ''1''" "''a''"]
  by (simp add: convertToTree_composite convertToTree_atom example_paths
      template_nodeId_def nat_to_string.simps digit_def)

text \<open>
  Claim C5. \<open>convertToTree\<close> terminates on every JSON value: every argument is in the
  domain on which the recursion is well founded, each entry of an object or array is
  strictly smaller than the value that holds it, and an atomic value has no entries and is
  returned as a \<open>JsonValue\<close> without a recursive call.
\<close>

theorem convertToTree_terminates:
  "convertToTree_dom (obj, keyPrefix) \<and>
   (\<forall>(key, value) \<in> set (entries obj). size value < size obj) \<and>
   (\<not> isComposite obj \<longrightarrow>
      entries obj = [] \<and> convertToTree obj keyPrefix = Element (JsonValue obj))"
proof (intro conjI impI)
  show "convertToTree_dom (obj, keyPrefix)" by (rule convertToTree_dom_all)
  show "\<forall>(key, value) \<in> set (entries obj). size value < size obj"
    by (auto dest: entries_size)
next
  assume atom: "\<not> isComposite obj"
  then show "entries obj = []" by (cases obj) simp_all
  from atom show "convertToTree obj keyPrefix = Element (JsonValue obj)"
    by (rule convertToTree_atom)
qed

theorem convertToTree_terminates_witness:
  "convertToTree_dom (JArr [JNull, JArr []], []) \<and>
   entries (JArr [JNull, JArr []]) = [(''0'', JNull), (''1'', JArr [])] \<and>
   size JNull < size (JArr [JNull, JArr []]) \<and>
   size (JArr []) < size (JArr [JNull, JArr []]) \<and>
   \<not> isComposite JNull \<and> entries JNull = [] \<and>
   convertToTree JNull ''['' = Element (JsonValue JNull)"
  using convertToTree_terminates [of "JArr [JNull, JArr []]" "[]"]
    convertToTree_terminates [of JNull "''[''"]
  by (simp add: nat_to_string.simps digit_def)

section \<open>Properties of the fetch-and-render lifecycle\<close>

lemma Object_keys_None: "Object_keys data = None \<longleftrightarrow> data = JNull"
  by (cases data) simp_all

lemma PreviewContent_host:
  "startsWith (contentType p) ''image/'' \<or> startsWith (contentType p) ''video/'' \<or>
   startsWith (contentType p) ''audio/'' \<or>
   (\<not> startsWith (contentType p) ''text/'' \<and> \<not> startsWith (contentType p) ''application/json'')
   \<Longrightarrow> PreviewContent p \<in>
     {Img (src p) (name p) (name p), Video (src p) (name p), Audio (src p) (name p),
      FullSizeIframe (src p) (name p)}"
  using startsWith_text_csv [of "contentType p"] by (auto simp: PreviewContent_def)

text \<open>
  Claim C3 says that every variant, the image, video, audio and frame variants included,
  fetches the body from the URL and parses it. The host elements do not: for an image the
  effect list is empty and no fetch of the URL is issued.
\<close>

theorem PreviewContent_fetch_counterexample:
  "PreviewContent \<lparr>contentType = ''image/png'', name = ''a.png'', src = ''/a.png''\<rparr>
     = Img ''/a.png'' ''a.png'' ''a.png'' \<and>
   Fetch ''/a.png'' \<notin>
     set (effect_calls
       (PreviewContent \<lparr>contentType = ''image/png'', name = ''a.png'', src = ''/a.png''\<rparr>)) \<and>
   effect_calls
     (PreviewContent \<lparr>contentType = ''image/png'', name = ''a.png'', src = ''/a.png''\<rparr>) = []"
  by (simp add: PreviewContent_def startsWith_def)

text \<open>
  Claim C3, as amended. The image, video, audio and frame variants issue no request and
  parse nothing: the element itself, with the URL as its \<open>src\<close>, is the display before and
  after. The CSV, text and JSON viewers fetch \<open>src\<close> in an effect after a first render
  without data. Once the fetch has settled the text viewer shows the body as a string; the
  CSV viewer shows the parsed rows with one column per key of the first row, when the
  parser yields at least one row; the JSON viewer shows a tree view whose children are the
  tree of \<open>convertToTree\<close> for the parsed document, when the body parses to a document other
  than \<open>null\<close>.
\<close>

theorem PreviewContent_lifecycle:
  "(startsWith (contentType p) ''image/'' \<or> startsWith (contentType p) ''video/'' \<or>
    startsWith (contentType p) ''audio/'' \<or>
    (\<not> startsWith (contentType p) ''text/'' \<and>
     \<not> startsWith (contentType p) ''application/json'') \<longrightarrow>
      effect_calls (PreviewContent p) = [] \<and>
      first_render (PreviewContent p) = Host (PreviewContent p) \<and>
      settled fetch parseCsv parseJson stringify (PreviewContent p) = Host (PreviewContent p)) \<and>
   (startsWith (contentType p) ''text/csv'' \<longrightarrow>
      effect_calls (PreviewContent p) = [Import ''csv-parse/browser/esm'', Fetch (src p)] \<and>
      first_render (PreviewContent p) = Nothing \<and>
      (\<forall>data r rs. fetch (src p) = Some data \<and> parseCsv data = Some (r # rs) \<longrightarrow>
         settled fetch parseCsv parseJson stringify (PreviewContent p) =
           DataGrid (name p)
             \<lparr>getRowId = row_id stringify, rows = r # rs,
              columns = map (\<lambda>f. \<lparr>field = f, headerName = f, flex = 1, minWidth = 200\<rparr>)
                          (map fst r)\<rparr>)) \<and>
   (startsWith (contentType p) ''text/'' \<and> \<not> startsWith (contentType p) ''text/csv'' \<longrightarrow>
      effect_calls (PreviewContent p) = [Fetch (src p)] \<and>
      first_render (PreviewContent p) =
        FullScreenSyntaxHighlighter (name p) (language (name p)) [] \<and>
      (\<forall>data. fetch (src p) = Some data \<longrightarrow>
         settled fetch parseCsv parseJson stringify (PreviewContent p) =
           FullScreenSyntaxHighlighter (name p) (language (name p)) data)) \<and>
   (startsWith (contentType p) ''application/json'' \<longrightarrow>
      effect_calls (PreviewContent p) = [Fetch (src p)] \<and>
      first_render (PreviewContent p) = Nothing \<and>
      (\<forall>body data. fetch (src p) = Some body \<and> parseJson body = Some data \<and>
           data \<noteq> JNull \<longrightarrow>
         (\<exists>props. settled fetch parseCsv parseJson stringify (PreviewContent p) =
              JsonTreeView (name p) props \<and>
            children props = convertToTree data [])))"
proof (intro conjI impI)
  assume "startsWith (contentType p) ''image/'' \<or> startsWith (contentType p) ''video/'' \<or>
    startsWith (contentType p) ''audio/'' \<or>
    (\<not> startsWith (contentType p) ''text/'' \<and> \<not> startsWith (contentType p) ''application/json'')"
  then have host: "PreviewContent p \<in>
     {Img (src p) (name p) (name p), Video (src p) (name p), Audio (src p) (name p),
      FullSizeIframe (src p) (name p)}"
    by (rule PreviewContent_host)
  from host show "effect_calls (PreviewContent p) = []" by auto
  from host show "first_render (PreviewContent p) = Host (PreviewContent p)" by auto
  from host show "settled fetch parseCsv parseJson stringify (PreviewContent p) =
      Host (PreviewContent p)" by auto
next
  assume "startsWith (contentType p) ''text/csv''"
  then have csv: "PreviewContent p = CsvViewer (src p) (name p)"
    by (rule PreviewContent_csv)
  from csv show "effect_calls (PreviewContent p) =
      [Import ''csv-parse/browser/esm'', Fetch (src p)]" by simp
  from csv show "first_render (PreviewContent p) = Nothing"
    by (simp add: CsvViewer_render_def)
  from csv show "\<forall>data r rs. fetch (src p) = Some data \<and> parseCsv data = Some (r # rs) \<longrightarrow>
         settled fetch parseCsv parseJson stringify (PreviewContent p) =
           DataGrid (name p)
             \<lparr>getRowId = row_id stringify, rows = r # rs,
              columns = map (\<lambda>f. \<lparr>field = f, headerName = f, flex = 1, minWidth = 200\<rparr>)
                          (map fst r)\<rparr>"
    by (simp add: CsvViewer_render_def CsvViewer_effect_def)
next
  assume "startsWith (contentType p) ''text/'' \<and> \<not> startsWith (contentType p) ''text/csv''"
  then have text_viewer: "PreviewContent p = TextViewer (src p) (name p)"
    by (simp add: PreviewContent_text)
  from text_viewer show "effect_calls (PreviewContent p) = [Fetch (src p)]" by simp
  from text_viewer show "first_render (PreviewContent p) =
      FullScreenSyntaxHighlighter (name p) (language (name p)) []"
    by (simp add: TextViewer_render_def)
  from text_viewer show "\<forall>data. fetch (src p) = Some data \<longrightarrow>
         settled fetch parseCsv parseJson stringify (PreviewContent p) =
           FullScreenSyntaxHighlighter (name p) (language (name p)) data"
    by (simp add: TextViewer_render_def TextViewer_effect_def)
next
  assume "startsWith (contentType p) ''application/json''"
  then have jsn: "PreviewContent p = JsonViewer (src p) (name p)"
    by (rule PreviewContent_json)
  from jsn show "effect_calls (PreviewContent p) = [Fetch (src p)]" by simp
  from jsn show "first_render (PreviewContent p) = Nothing"
    by (simp add: JsonViewer_render_def)
  from jsn show "\<forall>body data. fetch (src p) = Some body \<and> parseJson body = Some data \<and>
           data \<noteq> JNull \<longrightarrow>
         (\<exists>props. settled fetch parseCsv parseJson stringify (PreviewContent p) =
              JsonTreeView (name p) props \<and>
            children props = convertToTree data [])"
    by (auto simp: JsonViewer_render_def JsonViewer_effect_def Object_keys_None
        split: option.splits)
qed

theorem PreviewContent_lifecycle_witness:
  "effect_calls (PreviewContent \<lparr>contentType = ''video/mp4'', name = ''v.mp4'', src = ''/v''\<rparr>)
     = [] \<and>
   settled (\<lambda>u. Some ''a,b'') (\<lambda>d. Some [[(''a'', ''1'')]]) (\<lambda>b. Some (JArr [JNull]))
       (\<lambda>v. ''null'')
       (PreviewContent \<lparr>contentType = ''video/mp4'', name = ''v.mp4'', src = ''/v''\<rparr>)
     = Host (Video ''/v'' ''v.mp4'') \<and>
   settled (\<lambda>u. Some ''a,b'') (\<lambda>d. Some [[(''a'', ''1'')]]) (\<lambda>b. Some (JArr [JNull]))
       (\<lambda>v. ''null'')
       (PreviewContent \<lparr>contentType = ''text/csv'', name = ''t.csv'', src = ''/t''\<rparr>)
     = DataGrid ''t.csv''
         \<lparr>getRowId = row_id (\<lambda>v. ''null''), rows = [[(''a'', ''1'')]],
          columns = [\<lparr>field = ''a'', headerName = ''a'', flex = 1, minWidth = 200\<rparr>]\<rparr> \<and>
   settled (\<lambda>u. Some ''a,b'') (\<lambda>d. Some [[(''a'', ''1'')]]) (\<lambda>b. Some (JArr [JNull]))
       (\<lambda>v. ''null'')
       (PreviewContent \<lparr>contentType = ''text/x-c'', name = ''main.c'', src = ''/m''\<rparr>)
     = FullScreenSyntaxHighlighter ''main.c'' ''c'' ''a,b'' \<and>
   (\<exists>props.
      settled (\<lambda>u. Some ''a,b'') (\<lambda>d. Some [[(''a'', ''1'')]]) (\<lambda>b. Some (JArr [JNull]))
          (\<lambda>v. ''null'')
          (PreviewContent \<lparr>contentType = ''application/json'', name = ''d.json'', src = ''/d''\<rparr>)
        = JsonTreeView ''d.json'' props \<and>
      children props =
        Elements
          [TreeItem [CHR ''['', CHR 0x27, CHR ''0'', CHR 0x27, CHR '']'']
             (KeyValue ''0'' JNull) None])"
  using
    PreviewContent_lifecycle
      [of "\<lparr>contentType = ''video/mp4'', name = ''v.mp4'', src = ''/v''\<rparr>"
        "\<lambda>u. Some ''a,b''" "\<lambda>d. Some [[(''a'', ''1'')]]" "\<lambda>b. Some (JArr [JNull])"
        "\<lambda>v. ''null''"]
    PreviewContent_lifecycle
      [of "\<lparr>contentType = ''text/csv'', name = ''t.csv'', src = ''/t''\<rparr>"
        "\<lambda>u. Some ''a,b''" "\<lambda>d. Some [[(''a'', ''1'')]]" "\<lambda>b. Some (JArr [JNull])"
        "\<lambda>v. ''null''"]
    PreviewContent_lifecycle
      [of "\<lparr>contentType = ''text/x-c'', name = ''main.c'', src = ''/m''\<rparr>"
        "\<lambda>u. Some ''a,b''" "\<lambda>d. Some [[(''a'', ''1'')]]" "\<lambda>b. Some (JArr [JNull])"
        "\<lambda>v. ''null''"]
    PreviewContent_lifecycle
      [of "\<lparr>contentType = ''application/json'', name = ''d.json'', src = ''/d''\<rparr>"
        "\<lambda>u. Some ''a,b''" "\<lambda>d. Some [[(''a'', ''1'')]]" "\<lambda>b. Some (JArr [JNull])"
        "\<lambda>v. ''null''"]
  by (simp add: PreviewContent_def startsWith_def language_def convertToTree_composite
      convertToTree_atom template_nodeId_def nat_to_string.simps digit_def)

section \<open>Properties of the bucket listing\<close>

lemma js_replace_startsWith: "startsWith k p \<Longrightarrow> js_replace k p [] = drop (length p) k"
  by (cases k) (auto simp: startsWith_def)

lemma js_replace_empty: "js_replace k [] [] = k"
  by (simp add: js_replace_startsWith startsWith_def)

lemma lastIndexOf_split:
  assumes "c \<in> set k"
  shows "\<exists>a b. k = a @ c # b \<and> c \<notin> set b \<and> lastIndexOf k c = int (length a)"
proof -
  from assms obtain a b where k: "k = a @ c # b" and b: "c \<notin> set b"
    by (auto dest: split_list_last)
  have "takeWhile (\<lambda>x. x \<noteq> c) (rev k) = rev b"
    using b by (auto simp: k takeWhile_tail)
  then have "lastIndexOf k c = int (length a)"
    using assms by (simp add: lastIndexOf_def k)
  with k b show ?thesis by blast
qed

lemma loader_prefix_Some:
  assumes "loader_prefix (Some k) = Some p"
  shows "startsWith k p \<and> (p = [] \<or> endsWith p ''/'') \<and> CHR ''/'' \<notin> set (drop (length p) k)"
proof (cases "CHR ''/'' \<in> set k")
  case False
  then have "p = []"
    using assms by (simp add: loader_prefix_def slice_def lastIndexOf_def)
  with False show ?thesis by (simp add: startsWith_def)
next
  case True
  then obtain a b where k: "k = a @ CHR ''/'' # b" and b: "CHR ''/'' \<notin> set b"
    and li: "lastIndexOf k (CHR ''/'') = int (length a)"
    using lastIndexOf_split by blast
  have "nat (int (length a) + 1) = Suc (length a)" by simp
  then have "p = a @ ''/''"
    using assms li by (simp add: loader_prefix_def slice_def Let_def k)
  with k b show ?thesis by (simp add: startsWith_def endsWith_def)
qed

lemma loader_prefix_None: "loader_prefix key = None \<longleftrightarrow> key = None"
  by (simp add: loader_prefix_def split: option.splits)

lemma loader_result:
  assumes "loader dec send params = Inr d"
  shows "\<exists>resp. send (ListObjectsV2Command (params_id params)
            (loader_prefix (loader_key dec params)) ''/'') = Inr resp \<and>
      map item (directories d) =
        orEmpty (CommonPrefixes resp) @
        map (\<lambda>obj. \<lparr>Prefix = Key obj\<rparr>)
          (filter (\<lambda>obj. optEndsWithSlash (Key obj) \<and>
              Key obj \<noteq> loader_prefix (loader_key dec params)) (orEmpty (Contents resp))) \<and>
      map item (objects d) =
        filter (\<lambda>obj. \<not> optEndsWithSlash (Key obj)) (orEmpty (Contents resp)) \<and>
      (\<forall>x \<in> set (directories d).
         BucketName x = params_id params \<and>
         DirName x = loader_prefix (loader_key dec params) \<and>
         BaseName x = map_option
           (\<lambda>p. js_replace p (orEmpty (loader_prefix (loader_key dec params))) [])
           (Prefix (item x))) \<and>
      (\<forall>x \<in> set (objects d).
         BucketName x = params_id params \<and>
         DirName x = loader_prefix (loader_key dec params) \<and>
         BaseName x = map_option
           (\<lambda>p. js_replace p (orEmpty (loader_prefix (loader_key dec params))) [])
           (Key (item x))) \<and>
      selectedObject d =
        (case loader_key dec params of
           None \<Rightarrow> None
         | Some k \<Rightarrow>
             if k \<noteq> [] \<and> \<not> endsWith k ''/''
             then find (\<lambda>obj. Key (item obj) = Some k) (objects d)
             else None)"
proof -
  let ?cmd = "ListObjectsV2Command (params_id params) (loader_prefix (loader_key dec params)) ''/''"
  from assms obtain resp where resp: "send ?cmd = Inr resp"
    by (cases "send ?cmd") (simp_all add: loader_def Let_def)
  have dirs: "directories d = map (\<lambda>commonPrefix.
        \<lparr>item = commonPrefix, BucketName = params_id params,
         DirName = loader_prefix (loader_key dec params),
         BaseName = map_option
           (\<lambda>p. js_replace p (orEmpty (loader_prefix (loader_key dec params))) [])
           (Prefix commonPrefix)\<rparr>)
      (orEmpty (CommonPrefixes resp) @
        map (\<lambda>obj. \<lparr>Prefix = Key obj\<rparr>)
          (filter (\<lambda>obj. optEndsWithSlash (Key obj) \<and>
              Key obj \<noteq> loader_prefix (loader_key dec params)) (orEmpty (Contents resp))))"
    using assms resp
    by (cases "Contents resp") (auto simp: loader_def Let_def orEmpty_def)
  have objs: "objects d = map (\<lambda>obj.
        \<lparr>item = obj, BucketName = params_id params,
         DirName = loader_prefix (loader_key dec params),
         BaseName = map_option
           (\<lambda>p. js_replace p (orEmpty (loader_prefix (loader_key dec params))) [])
           (Key obj)\<rparr>)
      (filter (\<lambda>obj. \<not> optEndsWithSlash (Key obj)) (orEmpty (Contents resp)))"
    using assms resp
    by (cases "Contents resp") (auto simp: loader_def Let_def orEmpty_def)
  have sel: "selectedObject d =
        (case loader_key dec params of
           None \<Rightarrow> None
         | Some k \<Rightarrow>
             if k \<noteq> [] \<and> \<not> endsWith k ''/''
             then find (\<lambda>obj. Key (item obj) = Some k) (objects d)
             else None)"
    using assms resp by (auto simp: loader_def Let_def split: option.splits)
  have "map item (directories d) =
        orEmpty (CommonPrefixes resp) @
        map (\<lambda>obj. \<lparr>Prefix = Key obj\<rparr>)
          (filter (\<lambda>obj. optEndsWithSlash (Key obj) \<and>
              Key obj \<noteq> loader_prefix (loader_key dec params)) (orEmpty (Contents resp)))"
    by (simp add: dirs comp_def)
  moreover have "map item (objects d) =
        filter (\<lambda>obj. \<not> optEndsWithSlash (Key obj)) (orEmpty (Contents resp))"
    by (simp add: objs comp_def)
  moreover have "\<forall>x \<in> set (directories d).
         BucketName x = params_id params \<and>
         DirName x = loader_prefix (loader_key dec params) \<and>
         BaseName x = map_option
           (\<lambda>p. js_replace p (orEmpty (loader_prefix (loader_key dec params))) [])
           (Prefix (item x))"
    unfolding dirs by (simp only: set_map) auto
  moreover have "\<forall>x \<in> set (objects d).
         BucketName x = params_id params \<and>
         DirName x = loader_prefix (loader_key dec params) \<and>
         BaseName x = map_option
           (\<lambda>p. js_replace p (orEmpty (loader_prefix (loader_key dec params))) [])
           (Key (item x))"
    unfolding objs by (simp only: set_map) auto
  ultimately show ?thesis using resp sel by blast
qed


lemma startsWith_append_drop: "startsWith k p \<Longrightarrow> p @ drop (length p) k = k"
  unfolding startsWith_def by (metis append_take_drop_id)

lemma loader_enriched_aux:
  assumes "loader dec send params = Inr d"
  shows
  "(\<exists>resp. send (ListObjectsV2Command (params_id params)
      (loader_prefix (loader_key dec params)) ''/'') = Inr resp) \<and>
   (\<forall>x \<in> set (objects d).
      BucketName x = params_id params \<and>
      DirName x = loader_prefix (loader_key dec params) \<and>
      BaseName x = map_option
        (\<lambda>k. js_replace k (orEmpty (loader_prefix (loader_key dec params))) [])
        (Key (item x))) \<and>
   (\<forall>x \<in> set (directories d).
      BucketName x = params_id params \<and>
      DirName x = loader_prefix (loader_key dec params) \<and>
      BaseName x = map_option
        (\<lambda>k. js_replace k (orEmpty (loader_prefix (loader_key dec params))) [])
        (Prefix (item x))) \<and>
   (\<forall>k p. loader_key dec params = Some k \<and> loader_prefix (Some k) = Some p \<longrightarrow>
      startsWith k p \<and> (p = [] \<or> endsWith p ''/'') \<and> CHR ''/'' \<notin> set (drop (length p) k)) \<and>
   (\<forall>x \<in> set (objects d). \<forall>p k.
      DirName x = Some p \<and> Key (item x) = Some k \<and> startsWith k p \<longrightarrow>
      (\<exists>b. BaseName x = Some b \<and> p @ b = k)) \<and>
   (\<forall>x \<in> set (directories d). \<forall>p k.
      DirName x = Some p \<and> Prefix (item x) = Some k \<and> startsWith k p \<longrightarrow>
      (\<exists>b. BaseName x = Some b \<and> p @ b = k)) \<and>
   (loader_key dec params = None \<longrightarrow>
      (\<forall>x \<in> set (objects d). DirName x = None \<and> BaseName x = Key (item x)) \<and>
      (\<forall>x \<in> set (directories d). DirName x = None \<and> BaseName x = Prefix (item x)))"
proof -
  let ?pfx = "loader_prefix (loader_key dec params)"
  from loader_result [OF assms]
  have objs: "\<forall>x \<in> set (objects d).
      BucketName x = params_id params \<and> DirName x = ?pfx \<and>
      BaseName x = map_option (\<lambda>k. js_replace k (orEmpty ?pfx) []) (Key (item x))"
    and dirs: "\<forall>x \<in> set (directories d).
      BucketName x = params_id params \<and> DirName x = ?pfx \<and>
      BaseName x = map_option (\<lambda>k. js_replace k (orEmpty ?pfx) []) (Prefix (item x))"
    by blast+
  from loader_result [OF assms]
  have sent: "\<exists>resp. send (ListObjectsV2Command (params_id params) ?pfx ''/'') = Inr resp"
    by blast
  have pfx: "\<forall>k p. loader_key dec params = Some k \<and> loader_prefix (Some k) = Some p \<longrightarrow>
      startsWith k p \<and> (p = [] \<or> endsWith p ''/'') \<and> CHR ''/'' \<notin> set (drop (length p) k)"
    using loader_prefix_Some by blast
  have cat_objs: "\<forall>x \<in> set (objects d). \<forall>p k.
      DirName x = Some p \<and> Key (item x) = Some k \<and> startsWith k p \<longrightarrow>
      (\<exists>b. BaseName x = Some b \<and> p @ b = k)"
  proof (intro ballI allI impI)
    fix x p k
    assume x: "x \<in> set (objects d)"
      and h: "DirName x = Some p \<and> Key (item x) = Some k \<and> startsWith k p"
    from objs x h have "?pfx = Some p" by auto
    with objs x h have "BaseName x = Some (js_replace k p [])"
      by (simp add: orEmpty_def)
    with h show "\<exists>b. BaseName x = Some b \<and> p @ b = k"
      by (simp add: js_replace_startsWith startsWith_append_drop)
  qed
  have cat_dirs: "\<forall>x \<in> set (directories d). \<forall>p k.
      DirName x = Some p \<and> Prefix (item x) = Some k \<and> startsWith k p \<longrightarrow>
      (\<exists>b. BaseName x = Some b \<and> p @ b = k)"
  proof (intro ballI allI impI)
    fix x p k
    assume x: "x \<in> set (directories d)"
      and h: "DirName x = Some p \<and> Prefix (item x) = Some k \<and> startsWith k p"
    from dirs x h have "?pfx = Some p" by auto
    with dirs x h have "BaseName x = Some (js_replace k p [])"
      by (simp add: orEmpty_def)
    with h show "\<exists>b. BaseName x = Some b \<and> p @ b = k"
      by (simp add: js_replace_startsWith startsWith_append_drop)
  qed
  have root: "loader_key dec params = None \<longrightarrow>
      (\<forall>x \<in> set (objects d). DirName x = None \<and> BaseName x = Key (item x)) \<and>
      (\<forall>x \<in> set (directories d). DirName x = None \<and> BaseName x = Prefix (item x))"
  proof
    assume "loader_key dec params = None"
    then have none: "?pfx = None" by (simp add: loader_prefix_def)
    have id: "map_option (\<lambda>k. js_replace k [] []) v = v" for v
      by (cases v) (simp_all add: js_replace_empty)
    from objs dirs show "(\<forall>x \<in> set (objects d). DirName x = None \<and> BaseName x = Key (item x)) \<and>
      (\<forall>x \<in> set (directories d). DirName x = None \<and> BaseName x = Prefix (item x))"
      by (simp add: none orEmpty_def id)
  qed
  from sent objs dirs pfx cat_objs cat_dirs root show ?thesis by blast
qed


lemma js_replace_first:
  "(\<forall>a' b'. a @ p @ b = a' @ p @ b' \<longrightarrow> length a \<le> length a') \<Longrightarrow>
   js_replace (a @ p @ b) p [] = a @ b"
proof (induction a)
  case Nil
  have "startsWith (p @ b) p" by (simp add: startsWith_def)
  then show ?case by (simp add: js_replace_startsWith)
next
  case (Cons c a)
  have min: "\<forall>a' b'. a @ p @ b = a' @ p @ b' \<longrightarrow> length a \<le> length a'"
  proof (intro allI impI)
    fix a' b' assume "a @ p @ b = a' @ p @ b'"
    then have "(c # a) @ p @ b = (c # a') @ p @ b'" by simp
    with Cons.prems have "length (c # a) \<le> length (c # a')" by blast
    then show "length a \<le> length a'" by simp
  qed
  have "\<not> startsWith ((c # a) @ p @ b) p"
  proof
    assume "startsWith ((c # a) @ p @ b) p"
    then have "(c # a) @ p @ b = [] @ p @ drop (length p) ((c # a) @ p @ b)"
      using startsWith_append_drop by (metis append_Nil)
    with Cons.prems have "length (c # a) \<le> length ([] :: string)" by blast
    then show False by simp
  qed
  then show ?case using Cons.IH [OF min] by simp
qed

lemma js_replace_absent:
  "(\<forall>a b. k \<noteq> a @ p @ b) \<Longrightarrow> js_replace k p [] = k"
proof (induction k)
  case Nil
  then show ?case by simp
next
  case (Cons c k)
  have "\<not> startsWith (c # k) p"
  proof
    assume "startsWith (c # k) p"
    then have "c # k = [] @ p @ drop (length p) (c # k)"
      using startsWith_append_drop by (metis append_Nil)
    with Cons.prems show False by blast
  qed
  moreover have "\<forall>a b. k \<noteq> a @ p @ b"
  proof (intro allI notI)
    fix a b assume "k = a @ p @ b"
    then have "c # k = (c # a) @ p @ b" by simp
    with Cons.prems show False by blast
  qed
  ultimately show ?case using Cons.IH by simp
qed

lemma orEmpty_simps: "orEmpty None = []" "orEmpty (Some l) = l"
  by (simp_all add: orEmpty_def)

lemma loader_key_cases:
  "(\<forall>raw. params_key params = Some raw \<and> raw \<noteq> [] \<longrightarrow>
      loader_key dec params = Some (dec raw)) \<and>
   (params_key params = None \<or> params_key params = Some [] \<longrightarrow>
      loader_key dec params = None)"
  by (auto simp: loader_key_def)

lemma loader_prefix_raw:
  "(\<forall>raw. params_key params = Some raw \<and> raw \<noteq> [] \<longrightarrow>
      (\<exists>p. loader_prefix (loader_key dec params) = Some p \<and>
         startsWith (dec raw) p \<and> (p = [] \<or> endsWith p ''/'') \<and>
         CHR ''/'' \<notin> set (drop (length p) (dec raw)))) \<and>
   (params_key params = None \<or> params_key params = Some [] \<longrightarrow>
      loader_prefix (loader_key dec params) = None)"
proof (intro conjI allI impI)
  fix raw
  assume "params_key params = Some raw \<and> raw \<noteq> []"
  then have key: "loader_key dec params = Some (dec raw)"
    using loader_key_cases by blast
  obtain p where p: "loader_prefix (Some (dec raw)) = Some p"
    by (simp add: loader_prefix_def)
  from loader_prefix_Some [OF p] key p
  show "\<exists>p. loader_prefix (loader_key dec params) = Some p \<and>
         startsWith (dec raw) p \<and> (p = [] \<or> endsWith p ''/'') \<and>
         CHR ''/'' \<notin> set (drop (length p) (dec raw))"
    by simp
next
  assume "params_key params = None \<or> params_key params = Some []"
  then have "loader_key dec params = None" using loader_key_cases by blast
  then show "loader_prefix (loader_key dec params) = None" by (simp add: loader_prefix_def)
qed

text \<open>
  Claim C6. The loader lists the bucket under the listing prefix with the delimiter \<open>/\<close>.
  The key is \<open>base64UrlDecode\<close> of the route parameter when that is present and non-empty,
  and undefined otherwise. The listing prefix is the decoded key up to and including its
  last slash: a prefix of the decoded key that is empty or ends with a slash, with no slash
  after it. Every object and every directory the loader returns carries \<open>BucketName\<close> equal
  to the requested bucket, \<open>DirName\<close> equal to the listing prefix, and \<open>BaseName\<close> equal to its
  key (or prefix) with the first occurrence of the listing prefix removed (\<open>replace\<close> leaves
  a string unchanged in which the pattern does not occur). Hence, for every
  entry whose key starts with the listing prefix, \<open>DirName\<close> followed by \<open>BaseName\<close> is the
  key. Without a key there is no listing prefix: \<open>DirName\<close> is undefined and \<open>BaseName\<close> is
  the whole key.
\<close>

theorem loader_enriched:
  assumes "loader dec send params = Inr d"
  shows
  "(\<exists>resp. send (ListObjectsV2Command (params_id params)
      (loader_prefix (loader_key dec params)) ''/'') = Inr resp) \<and>
   (\<forall>raw. params_key params = Some raw \<and> raw \<noteq> [] \<longrightarrow>
      loader_key dec params = Some (dec raw)) \<and>
   (params_key params = None \<or> params_key params = Some [] \<longrightarrow>
      loader_key dec params = None) \<and>
   (\<forall>raw. params_key params = Some raw \<and> raw \<noteq> [] \<longrightarrow>
      (\<exists>p. loader_prefix (loader_key dec params) = Some p \<and>
         startsWith (dec raw) p \<and> (p = [] \<or> endsWith p ''/'') \<and>
         CHR ''/'' \<notin> set (drop (length p) (dec raw)))) \<and>
   (params_key params = None \<or> params_key params = Some [] \<longrightarrow>
      loader_prefix (loader_key dec params) = None) \<and>
   (\<forall>x \<in> set (objects d).
      BucketName x = params_id params \<and>
      DirName x = loader_prefix (loader_key dec params) \<and>
      BaseName x = map_option
        (\<lambda>k. js_replace k (orEmpty (loader_prefix (loader_key dec params))) [])
        (Key (item x))) \<and>
   (\<forall>x \<in> set (directories d).
      BucketName x = params_id params \<and>
      DirName x = loader_prefix (loader_key dec params) \<and>
      BaseName x = map_option
        (\<lambda>k. js_replace k (orEmpty (loader_prefix (loader_key dec params))) [])
        (Prefix (item x))) \<and>
   (\<forall>x \<in> set (objects d). \<forall>p k.
      DirName x = Some p \<and> Key (item x) = Some k \<and> startsWith k p \<longrightarrow>
      (\<exists>b. BaseName x = Some b \<and> p @ b = k)) \<and>
   (\<forall>x \<in> set (directories d). \<forall>p k.
      DirName x = Some p \<and> Prefix (item x) = Some k \<and> startsWith k p \<longrightarrow>
      (\<exists>b. BaseName x = Some b \<and> p @ b = k)) \<and>
   (params_key params = None \<or> params_key params = Some [] \<longrightarrow>
      (\<forall>x \<in> set (objects d). DirName x = None \<and> BaseName x = Key (item x)) \<and>
      (\<forall>x \<in> set (directories d). DirName x = None \<and> BaseName x = Prefix (item x))) \<and>
   orEmpty (None :: string option) = [] \<and>
   (\<forall>p :: string. orEmpty (Some p) = p) \<and>
   (\<forall>a p b. (\<forall>a' b'. a @ p @ b = a' @ p @ b' \<longrightarrow> length a \<le> length a') \<longrightarrow>
      js_replace (a @ p @ b) p [] = a @ b) \<and>
   (\<forall>k p. (\<forall>a b. k \<noteq> a @ p @ b) \<longrightarrow> js_replace k p [] = k)"
proof -
  note aux = loader_enriched_aux [OF assms]
  note sent = aux [THEN conjunct1]
  note objs = aux [THEN conjunct2, THEN conjunct1]
  note dirs = aux [THEN conjunct2, THEN conjunct2, THEN conjunct1]
  note cat_objs = aux [THEN conjunct2, THEN conjunct2, THEN conjunct2, THEN conjunct2,
      THEN conjunct1]
  note cat_dirs = aux [THEN conjunct2, THEN conjunct2, THEN conjunct2, THEN conjunct2,
      THEN conjunct2, THEN conjunct1]
  note root0 = aux [THEN conjunct2, THEN conjunct2, THEN conjunct2, THEN conjunct2,
      THEN conjunct2, THEN conjunct2]
  note key1 = loader_key_cases [of params dec, THEN conjunct1]
  note key2 = loader_key_cases [of params dec, THEN conjunct2]
  note pfx1 = loader_prefix_raw [of params dec, THEN conjunct1]
  note pfx2 = loader_prefix_raw [of params dec, THEN conjunct2]
  have root: "params_key params = None \<or> params_key params = Some [] \<longrightarrow>
      (\<forall>x \<in> set (objects d). DirName x = None \<and> BaseName x = Key (item x)) \<and>
      (\<forall>x \<in> set (directories d). DirName x = None \<and> BaseName x = Prefix (item x))"
  proof
    assume "params_key params = None \<or> params_key params = Some []"
    with key2 have "loader_key dec params = None" ..
    with root0 show "(\<forall>x \<in> set (objects d). DirName x = None \<and> BaseName x = Key (item x)) \<and>
      (\<forall>x \<in> set (directories d). DirName x = None \<and> BaseName x = Prefix (item x))" ..
  qed
  have oe1: "orEmpty (None :: string option) = []"
    and oe2: "\<forall>p :: string. orEmpty (Some p) = p"
    by (simp_all add: orEmpty_simps)
  have repl1: "\<forall>a p b. (\<forall>a' b'. a @ p @ b = a' @ p @ b' \<longrightarrow> length a \<le> length a') \<longrightarrow>
      js_replace (a @ p @ b) p [] = a @ b"
    using js_replace_first by blast
  have repl2: "\<forall>k p. (\<forall>a b. k \<noteq> a @ p @ b) \<longrightarrow> js_replace k p [] = k"
    using js_replace_absent by blast
  show ?thesis
    by (intro conjI)
      (rule sent key1 key2 pfx1 pfx2 objs dirs cat_objs cat_dirs root oe1 oe2 repl1 repl2)+
qed

theorem loader_enriched_witness:
  "loader (\<lambda>s. if s = ''YS9mLnR4dA'' then ''a/f.txt'' else [])
     (\<lambda>c. if c = ListObjectsV2Command ''bk'' (Some ''a/'') ''/''
          then Inr \<lparr>CommonPrefixes = Some [\<lparr>Prefix = Some ''a/d/''\<rparr>],
                    Contents = Some
                      [\<lparr>Key = Some ''a/'', LastModified = None, ETag = None, Size = Some 0,
                        StorageClass = None\<rparr>,
                       \<lparr>Key = Some ''a/f.txt'', LastModified = None, ETag = None,
                        Size = Some 3, StorageClass = None\<rparr>]\<rparr>
          else Inl ())
     \<lparr>params_id = ''bk'', params_key = Some ''YS9mLnR4dA''\<rparr> =
   Inr \<lparr>directories =
          [\<lparr>item = \<lparr>Prefix = Some ''a/d/''\<rparr>, BucketName = ''bk'', DirName = Some ''a/'',
            BaseName = Some ''d/''\<rparr>],
        objects =
          [\<lparr>item = \<lparr>Key = Some ''a/f.txt'', LastModified = None, ETag = None, Size = Some 3,
                     StorageClass = None\<rparr>,
            BucketName = ''bk'', DirName = Some ''a/'', BaseName = Some ''f.txt''\<rparr>],
        selectedObject =
          Some \<lparr>item = \<lparr>Key = Some ''a/f.txt'', LastModified = None, ETag = None,
                         Size = Some 3, StorageClass = None\<rparr>,
                BucketName = ''bk'', DirName = Some ''a/'', BaseName = Some ''f.txt''\<rparr>\<rparr> \<and>
   loader_key (\<lambda>s. if s = ''YS9mLnR4dA'' then ''a/f.txt'' else [])
     \<lparr>params_id = ''bk'', params_key = Some ''YS9mLnR4dA''\<rparr> = Some ''a/f.txt'' \<and>
   loader_prefix (Some ''a/f.txt'') = Some ''a/'' \<and>
   startsWith ''a/f.txt'' ''a/'' \<and> endsWith ''a/'' ''/'' \<and>
   ''a/'' @ ''f.txt'' = ''a/f.txt'' \<and> ''a/'' @ ''d/'' = ''a/d/'' \<and>
   loader (\<lambda>s. if s = ''YS9mLnR4dA'' then ''a/f.txt'' else [])
     (\<lambda>c. if c = ListObjectsV2Command ''bk'' None ''/''
          then Inr \<lparr>CommonPrefixes = Some [\<lparr>Prefix = Some ''a/''\<rparr>],
                    Contents = Some
                      [\<lparr>Key = Some ''r.txt'', LastModified = None, ETag = None,
                        Size = Some 1, StorageClass = None\<rparr>]\<rparr>
          else Inl ())
     \<lparr>params_id = ''bk'', params_key = Some []\<rparr> =
   Inr \<lparr>directories =
          [\<lparr>item = \<lparr>Prefix = Some ''a/''\<rparr>, BucketName = ''bk'', DirName = None,
            BaseName = Some ''a/''\<rparr>],
        objects =
          [\<lparr>item = \<lparr>Key = Some ''r.txt'', LastModified = None, ETag = None, Size = Some 1,
                     StorageClass = None\<rparr>,
            BucketName = ''bk'', DirName = None, BaseName = Some ''r.txt''\<rparr>],
        selectedObject = None\<rparr>"
proof -
  let ?dec = "\<lambda>s. if s = ''YS9mLnR4dA'' then ''a/f.txt'' else []"
  let ?send = "\<lambda>c. if c = ListObjectsV2Command ''bk'' (Some ''a/'') ''/''
          then Inr \<lparr>CommonPrefixes = Some [\<lparr>Prefix = Some ''a/d/''\<rparr>],
                    Contents = Some
                      [\<lparr>Key = Some ''a/'', LastModified = None, ETag = None, Size = Some 0,
                        StorageClass = None\<rparr>,
                       \<lparr>Key = Some ''a/f.txt'', LastModified = None, ETag = None,
                        Size = Some 3, StorageClass = None\<rparr>]\<rparr>
          else Inl ()"
  let ?root = "\<lambda>c. if c = ListObjectsV2Command ''bk'' None ''/''
          then Inr \<lparr>CommonPrefixes = Some [\<lparr>Prefix = Some ''a/''\<rparr>],
                    Contents = Some
                      [\<lparr>Key = Some ''r.txt'', LastModified = None, ETag = None,
                        Size = Some 1, StorageClass = None\<rparr>]\<rparr>
          else Inl ()"
  have run: "loader ?dec ?send \<lparr>params_id = ''bk'', params_key = Some ''YS9mLnR4dA''\<rparr> =
   Inr \<lparr>directories =
          [\<lparr>item = \<lparr>Prefix = Some ''a/d/''\<rparr>, BucketName = ''bk'', DirName = Some ''a/'',
            BaseName = Some ''d/''\<rparr>],
        objects =
          [\<lparr>item = \<lparr>Key = Some ''a/f.txt'', LastModified = None, ETag = None, Size = Some 3,
                     StorageClass = None\<rparr>,
            BucketName = ''bk'', DirName = Some ''a/'', BaseName = Some ''f.txt''\<rparr>],
        selectedObject =
          Some \<lparr>item = \<lparr>Key = Some ''a/f.txt'', LastModified = None, ETag = None,
                         Size = Some 3, StorageClass = None\<rparr>,
                BucketName = ''bk'', DirName = Some ''a/'', BaseName = Some ''f.txt''\<rparr>\<rparr>"
    by (simp add: loader_def Let_def loader_key_def loader_prefix_def slice_def
        lastIndexOf_def optEndsWithSlash_def endsWith_def startsWith_def)
  have root: "loader ?dec ?root \<lparr>params_id = ''bk'', params_key = Some []\<rparr> =
   Inr \<lparr>directories =
          [\<lparr>item = \<lparr>Prefix = Some ''a/''\<rparr>, BucketName = ''bk'', DirName = None,
            BaseName = Some ''a/''\<rparr>],
        objects =
          [\<lparr>item = \<lparr>Key = Some ''r.txt'', LastModified = None, ETag = None, Size = Some 1,
                     StorageClass = None\<rparr>,
            BucketName = ''bk'', DirName = None, BaseName = Some ''r.txt''\<rparr>],
        selectedObject = None\<rparr>"
    by (simp add: loader_def Let_def loader_key_def loader_prefix_def slice_def
        lastIndexOf_def optEndsWithSlash_def endsWith_def startsWith_def)
  show ?thesis
    using run root
      loader_enriched [where dec = ?dec and send = ?send, OF run]
      loader_enriched [where dec = ?dec and send = ?root, OF root]
    by (simp add: loader_key_def loader_prefix_def slice_def lastIndexOf_def
        endsWith_def startsWith_def)
qed






section \<open>Properties of the error boundary\<close>

text \<open>
  Claim C7. The error boundary renders a page in exactly these cases. A route error
  response with status 401 or 404 renders a document titled with the status and the status
  text, with a heading of both. A route error response with any other status renders
  nothing: a new \<open>Error\<close> is thrown, built from \<open>error.data\<close> when that is truthy and from the
  status text otherwise. An \<open>Error\<close> instance renders a document that shows its message. Any
  other value renders the heading \<open>Unknown Error\<close>.
\<close>

theorem ErrorBoundary_cases:
  "(status = 401 \<or> status = 404 \<longrightarrow>
      (\<exists>body. ErrorBoundary (RouteErrorResponse status statusText data) =
         Inr (Document (nat_to_string status @ '' '' @ statusText) body) \<and>
         H1 (nat_to_string status @ '': '' @ statusText) \<in> set body)) \<and>
   (status \<noteq> 401 \<and> status \<noteq> 404 \<longrightarrow>
      (\<forall>v. data = Some v \<and> truthy data \<longrightarrow>
         ErrorBoundary (RouteErrorResponse status statusText data) = Inl (Error v)) \<and>
      (\<not> truthy data \<longrightarrow>
         ErrorBoundary (RouteErrorResponse status statusText data) =
           Inl (Error (JStr statusText)))) \<and>
   (\<exists>body. ErrorBoundary (ErrorInstance message) = Inr (Document ''Error!'' body) \<and>
      P message \<in> set body) \<and>
   ErrorBoundary OtherValue = Inr (Bare (H1 ''Unknown Error'')) \<and>
   ((\<exists>pg. ErrorBoundary error = Inr pg) \<longleftrightarrow>
      (\<forall>st txt dt. error = RouteErrorResponse st txt dt \<longrightarrow> st = 401 \<or> st = 404))"
proof (intro conjI impI)
  assume "status = 401 \<or> status = 404"
  then show "\<exists>body. ErrorBoundary (RouteErrorResponse status statusText data) =
         Inr (Document (nat_to_string status @ '' '' @ statusText) body) \<and>
         H1 (nat_to_string status @ '': '' @ statusText) \<in> set body"
    by (auto simp: ErrorBoundary_def)
next
  assume "status \<noteq> 401 \<and> status \<noteq> 404"
  then show "\<forall>v. data = Some v \<and> truthy data \<longrightarrow>
         ErrorBoundary (RouteErrorResponse status statusText data) = Inl (Error v)"
    by (auto simp: ErrorBoundary_def)
next
  assume "status \<noteq> 401 \<and> status \<noteq> 404" and "\<not> truthy data"
  then show "ErrorBoundary (RouteErrorResponse status statusText data) =
      Inl (Error (JStr statusText))"
    by (cases data) (simp_all add: ErrorBoundary_def)
next
  show "\<exists>body. ErrorBoundary (ErrorInstance message) = Inr (Document ''Error!'' body) \<and>
      P message \<in> set body"
    by (simp add: ErrorBoundary_def)
next
  show "ErrorBoundary OtherValue = Inr (Bare (H1 ''Unknown Error''))"
    by (simp add: ErrorBoundary_def)
next
  show "(\<exists>pg. ErrorBoundary error = Inr pg) \<longleftrightarrow>
      (\<forall>st txt dt. error = RouteErrorResponse st txt dt \<longrightarrow> st = 401 \<or> st = 404)"
    by (cases error) (auto simp: ErrorBoundary_def)
qed

theorem ErrorBoundary_cases_witness:
  "ErrorBoundary (RouteErrorResponse 404 ''Not Found'' None) =
     Inr (Document ''404 Not Found''
       [H1 ''404: Not Found'',
        P ''Oops! Looks like you tried to visit a page that does not exist.'']) \<and>
   truthy (Some (JStr ''boom'')) \<and>
   ErrorBoundary (RouteErrorResponse 500 ''Internal Server Error'' (Some (JStr ''boom''))) =
     Inl (Error (JStr ''boom'')) \<and>
   \<not> truthy (Some (JStr [])) \<and>
   ErrorBoundary (RouteErrorResponse 500 ''Internal Server Error'' (Some (JStr []))) =
     Inl (Error (JStr ''Internal Server Error'')) \<and>
   ErrorBoundary (ErrorInstance ''oh no'') =
     Inr (Document ''Error!''
       [H1 ''There was an error'', P ''oh no'', Hr,
        P ''Hey, developer, you should replace this with what you want your users to see.''])"
  using
    ErrorBoundary_cases [of 404 "''Not Found''" None "''oh no''" OtherValue]
    ErrorBoundary_cases
      [of 500 "''Internal Server Error''" "Some (JStr ''boom'')" "''oh no''" OtherValue]
    ErrorBoundary_cases
      [of 500 "''Internal Server Error''" "Some (JStr [])" "''oh no''" OtherValue]
  by (simp add: ErrorBoundary_def nat_to_string.simps digit_def)

section \<open>Properties of the create-queue action\<close>

lemma createQueueAction_sent:
  "fst (createQueueAction send formData) =
     [\<lparr>QueueName =
         template_opt (map_option entry_toString (formData_get formData ''name'')) @
         (if formData_has formData ''fifo'' then ''.fifo'' else []),
       Attributes =
         \<lparr>FifoQueue = bool_toString (formData_has formData ''fifo''),
          ContentBasedDeduplication =
            bool_toString (formData_has formData ''contentBasedDeduplication'')\<rparr>\<rparr>]"
  by (simp add: createQueueAction_def Let_def)

text \<open>
  Claim C8. The action sends exactly one \<open>CreateQueueCommand\<close>. Its \<open>QueueName\<close> is the form
  field \<open>name\<close>, followed by \<open>.fifo\<close> exactly when the form data has a field \<open>fifo\<close>; its
  attribute \<open>FifoQueue\<close> is \<open>true\<close> or \<open>false\<close> as that field is present or not, and its
  attribute \<open>ContentBasedDeduplication\<close> is \<open>true\<close> or \<open>false\<close> as the field
  \<open>contentBasedDeduplication\<close> is present or not. When the send completes, the action
  redirects to \<open>/sqs/queues\<close>.
\<close>

theorem createQueueAction_command:
  "\<exists>command. fst (createQueueAction send formData) = [command] \<and>
     (\<forall>n. formData_get formData ''name'' = Some (FormString n) \<longrightarrow>
        (formData_has formData ''fifo'' \<longrightarrow> QueueName command = n @ ''.fifo'') \<and>
        (\<not> formData_has formData ''fifo'' \<longrightarrow> QueueName command = n)) \<and>
     (FifoQueue (Attributes command) = ''true'' \<longleftrightarrow> formData_has formData ''fifo'') \<and>
     (FifoQueue (Attributes command) = ''false'' \<longleftrightarrow> \<not> formData_has formData ''fifo'') \<and>
     (ContentBasedDeduplication (Attributes command) = ''true'' \<longleftrightarrow>
        formData_has formData ''contentBasedDeduplication'') \<and>
     (ContentBasedDeduplication (Attributes command) = ''false'' \<longleftrightarrow>
        \<not> formData_has formData ''contentBasedDeduplication'') \<and>
     (send command = None \<longrightarrow>
        snd (createQueueAction send formData) = Inr (Redirect ''/sqs/queues''))"
  by (simp add: createQueueAction_def Let_def bool_toString_def template_opt_def)

theorem createQueueAction_command_witness:
  "formData_get [(''name'', FormString ''jobs''), (''fifo'', FormString ''on'')] ''name'' =
     Some (FormString ''jobs'') \<and>
   formData_has [(''name'', FormString ''jobs''), (''fifo'', FormString ''on'')] ''fifo'' \<and>
   createQueueAction (\<lambda>c. None :: unit option)
       [(''name'', FormString ''jobs''), (''fifo'', FormString ''on'')] =
     ([\<lparr>QueueName = ''jobs.fifo'',
        Attributes = \<lparr>FifoQueue = ''true'', ContentBasedDeduplication = ''false''\<rparr>\<rparr>],
      Inr (Redirect ''/sqs/queues'')) \<and>
   \<not> formData_has [(''name'', FormString ''mail'')] ''fifo'' \<and>
   createQueueAction (\<lambda>c. None :: unit option) [(''name'', FormString ''mail'')] =
     ([\<lparr>QueueName = ''mail'',
        Attributes = \<lparr>FifoQueue = ''false'', ContentBasedDeduplication = ''false''\<rparr>\<rparr>],
      Inr (Redirect ''/sqs/queues''))"
  using
    createQueueAction_command
      [of "\<lambda>c. None :: unit option" "[(''name'', FormString ''jobs''), (''fifo'', FormString ''on'')]"]
    createQueueAction_command [of "\<lambda>c. None :: unit option" "[(''name'', FormString ''mail'')]"]
  by (simp add: createQueueAction_def Let_def bool_toString_def template_opt_def
      formData_has_def formData_get_def)

section \<open>Properties of the console home\<close>

text \<open>
  Claim C10. The index loader returns the list of enabled services if and only if more
  than one service is enabled, and then the list is the one it was given. Otherwise it
  redirects: with exactly one enabled service to the page of that service, and with none
  to \<open>/undefined\<close>; it neither fails nor returns an empty list.
\<close>

theorem index_loader_cases:
  "((\<exists>xs. index_loader services = Services xs) \<longleftrightarrow> length services > 1) \<and>
   (length services > 1 \<longrightarrow> index_loader services = Services services) \<and>
   (\<forall>s. services = [s] \<longrightarrow> index_loader services = Response (Redirect (''/'' @ s))) \<and>
   (services = [] \<longrightarrow> index_loader services = Response (Redirect ''/undefined'')) \<and>
   index_loader services \<noteq> Services []"
  by (cases services) (auto simp: index_loader_def template_opt_def)

theorem index_loader_cases_witness:
  "index_loader [''s3'', ''sqs''] = Services [''s3'', ''sqs''] \<and>
   index_loader [''s3''] = Response (Redirect ''/s3'') \<and>
   index_loader [] = Response (Redirect ''/undefined'')"
  using index_loader_cases [of "[''s3'', ''sqs'']"] index_loader_cases [of "[''s3'']"]
    index_loader_cases [of "[]"]
  by (simp add: index_loader_def template_opt_def)


end
